theory Spec2Isabelle
  imports Main "HOL-Library.AList"
begin

section \<open>JavaScript strings\<close>

text \<open>
  A JavaScript string is modelled as a \<^typ>\<open>string\<close>: a list of code units in the range
  0..255. White space (\<^verbatim>\<open>\s\<close>, \<^verbatim>\<open>trim\<close>) is then tab, line feed, vertical tab, form feed,
  carriage return, space and no-break space; the white space characters of JavaScript
  beyond U+00FF are outside the model.
\<close>

definition is_space :: "char \<Rightarrow> bool" where
  "is_space c = (c \<in> set [CHR 0x09, CHR 0x0A, CHR 0x0B, CHR 0x0C, CHR 0x0D, CHR 0x20, CHR 0xA0])"

definition is_digit :: "char \<Rightarrow> bool" where
  "is_digit c = (c \<in> set ''0123456789'')"

text \<open>The characters that \<^verbatim>\<open>.\<close> of a regular expression does not match.\<close>

definition is_line_terminator :: "char \<Rightarrow> bool" where
  "is_line_terminator c = (c \<in> set [CHR 0x0A, CHR 0x0D])"

definition trim :: "string \<Rightarrow> string" where
  "trim s = rev (dropWhile is_space (rev (dropWhile is_space s)))"

definition startsWith :: "string \<Rightarrow> string \<Rightarrow> bool" where
  "startsWith s p = (take (length p) s = p)"

text \<open>\<^verbatim>\<open>s.includes(p)\<close>\<close>

fun includes_str :: "string \<Rightarrow> string \<Rightarrow> bool" where
  "includes_str [] p = (p = [])"
| "includes_str (c # cs) p = (startsWith (c # cs) p \<or> includes_str cs p)"

text \<open>\<^verbatim>\<open>parts.join('')\<close>\<close>

definition join :: "string list \<Rightarrow> string" where
  "join parts = concat parts"

text \<open>
  \<^verbatim>\<open>s.substring(a, b)\<close>: both indices are clamped to the length and swapped when
  \<^verbatim>\<open>a > b\<close>.
\<close>

definition substring :: "string \<Rightarrow> nat \<Rightarrow> nat \<Rightarrow> string" where
  "substring s a b =
     (let a' = min a (length s); b' = min b (length s);
          lo = min a' b'; hi = max a' b'
      in take (hi - lo) (drop lo s))"

text \<open>
  \<^verbatim>\<open>s.replace(/re/g, rep)\<close> for a pattern that never matches the empty string. The matcher
  \<open>m\<close> gives the length of the match that starts at the head of its argument, if there is
  one; the scan goes left to right and resumes behind each match.
\<close>

fun gsub :: "(string \<Rightarrow> nat option) \<Rightarrow> string \<Rightarrow> nat \<Rightarrow> string \<Rightarrow> string" where
  "gsub m rep skip [] = []"
| "gsub m rep (Suc k) (c # cs) = gsub m rep k cs"
| "gsub m rep 0 (c # cs) =
     (case m (c # cs) of
        Some (Suc k) \<Rightarrow> rep @ gsub m rep k cs
      | _ \<Rightarrow> c # gsub m rep 0 cs)"

definition replaceAll :: "(string \<Rightarrow> nat option) \<Rightarrow> string \<Rightarrow> string \<Rightarrow> string" where
  "replaceAll m rep s = gsub m rep 0 s"

text \<open>A literal pattern, as in \<^verbatim>\<open>/&amp;/g\<close>.\<close>

definition lit :: "string \<Rightarrow> string \<Rightarrow> nat option" where
  "lit p s = (if p \<noteq> [] \<and> startsWith s p then Some (length p) else None)"

text \<open>\<^verbatim>\<open>/\s+/g\<close>\<close>

definition ws_run :: "string \<Rightarrow> nat option" where
  "ws_run s = (let n = length (takeWhile is_space s) in if 0 < n then Some n else None)"

text \<open>\<^verbatim>\<open>s.replace(/^\s*<>\s*/, '')\<close> and \<^verbatim>\<open>/^\s*<>\s*/.test(s)\<close>: the correct-answer marker.\<close>

definition hasLeadingMarker :: "string \<Rightarrow> bool" where
  "hasLeadingMarker s = startsWith (dropWhile is_space s) ''<>''"

definition stripLeadingMarker :: "string \<Rightarrow> string" where
  "stripLeadingMarker s =
     (if hasLeadingMarker s then dropWhile is_space (drop 2 (dropWhile is_space s)) else s)"

text \<open>\<^verbatim>\<open>String(n)\<close> for a non-negative integer: its decimal digits.\<close>

definition digit_char :: "nat \<Rightarrow> char" where
  "digit_char d = ''0123456789'' ! (d mod 10)"

function show_nat :: "nat \<Rightarrow> string" where
  "show_nat n = (if n < 10 then [digit_char n] else show_nat (n div 10) @ [digit_char (n mod 10)])"
  by pat_completeness auto
termination
  by (relation "measure id") auto

declare show_nat.simps [simp del]

text \<open>\<^verbatim>\<open>s.padStart(3, '0')\<close>\<close>

definition padStart3 :: "string \<Rightarrow> string" where
  "padStart3 s = replicate (3 - length s) (CHR ''0'') @ s"

section \<open>The document tree\<close>

text \<open>
  The host's document objects, as far as the parser reads them. A text element has its
  text, the offsets where the formatting changes (\<^verbatim>\<open>getTextAttributeIndices\<close>) and the
  attributes at these offsets (\<^verbatim>\<open>getAttributes(start)\<close>). An attribute the host leaves
  unset (\<^verbatim>\<open>null\<close>) is \<open>False\<close>, \<open>NORMAL\<close> or \<open>None\<close>.
\<close>

datatype valign = NORMAL | SUPERSCRIPT | SUBSCRIPT

record text_attrs =
  VERTICAL_ALIGNMENT :: valign
  STRIKETHROUGH :: bool
  UNDERLINE :: bool
  ITALIC :: bool
  BOLD :: bool
  LINK_URL :: "string option"

definition no_attrs :: text_attrs where
  "no_attrs = \<lparr>VERTICAL_ALIGNMENT = NORMAL, STRIKETHROUGH = False, UNDERLINE = False,
     ITALIC = False, BOLD = False, LINK_URL = None\<rparr>"

record text_el =
  getText :: string
  getTextAttributeIndices :: "nat list"
  attributesAt :: "(nat \<times> text_attrs) list"

definition getAttributes :: "text_el \<Rightarrow> nat \<Rightarrow> text_attrs" where
  "getAttributes el start = (case map_of (attributesAt el) start of Some a \<Rightarrow> a | None \<Rightarrow> no_attrs)"

text \<open>A blob is a mutable host object: the model keeps blobs in a heap, addressed by index.\<close>

record blob =
  getName :: string
  getContentType :: string
  getBytes :: "nat list"

type_synonym heap = "blob list"

text \<open>
  An inline image returns a new blob at each \<^verbatim>\<open>getBlob()\<close>; its width and height are
  whole pixels, absent when the host gives none.
\<close>

record inline_image =
  getBlob :: blob
  getWidth :: "int option"
  getHeight :: "int option"

datatype node =
    TEXT text_el
  | INLINE_IMAGE inline_image
  | EQUATION "node list"
  | EQUATION_FUNCTION string "node list"
  | EQUATION_SYMBOL string string
  | OTHER_ELEMENT

datatype glyph =
    BULLET | HOLLOW_BULLET | SQUARE_BULLET
  | NUMBER | LATIN_UPPER | LATIN_LOWER | ROMAN_UPPER | ROMAN_LOWER
  | NO_GLYPH

text \<open>
  A block of the body or of a table cell. A paragraph and a list item carry what
  \<^verbatim>\<open>getText()\<close> returns and their inline children; a table is its rows of cells of blocks.
\<close>

datatype block =
    PARAGRAPH string "node list"
  | LIST_ITEM string glyph "node list"
  | TABLE "block list list list"
  | OTHER_BLOCK

section \<open>Rich-content renderer (Core.js)\<close>

text \<open>
  The image store is the object \<^verbatim>\<open>result.images\<close>: its keys in insertion order, each with
  the address of its blob. Storing under a key that is present keeps the key's place.
\<close>

record rstate =
  imageStore :: "(string \<times> nat) list"
  blobs :: heap

text \<open>
  The \<^verbatim>\<open>context\<close> argument; \<^verbatim>\<open>undefined\<close> is the context with every flag off. The
  renderer only ever writes \<^verbatim>\<open>_markerStripped\<close>.
\<close>

record ctx =
  inEquation :: bool
  stripLeadingCorrectMarker :: bool
  markerStripped :: bool

definition no_ctx :: ctx where
  "no_ctx = \<lparr>inEquation = False, stripLeadingCorrectMarker = False, markerStripped = False\<rparr>"

definition bslash :: char where
  "bslash = CHR 0x5C"

definition escapeHtml :: "string \<Rightarrow> string" where
  \<open>escapeHtml text =
     replaceAll (lit [CHR 0x27]) ''&#039;''
       (replaceAll (lit [CHR 0x22]) ''&quot;''
         (replaceAll (lit ''>'') ''&gt;''
           (replaceAll (lit ''<'') ''&lt;''
             (replaceAll (lit ''&'') ''&amp;'' text))))\<close>

definition escapeHtmlAttr :: "string \<Rightarrow> string" where
  "escapeHtmlAttr text = escapeHtml text"

text \<open>
  The content type of a blob is a MIME type such as \<^verbatim>\<open>image/png\<close>, never the name of a
  property that every object inherits.
\<close>

definition getExtension :: "string \<Rightarrow> string" where
  "getExtension mime =
     (if mime = ''image/png'' then ''png''
      else if mime = ''image/jpeg'' then ''jpg''
      else if mime = ''image/gif'' then ''gif''
      else ''png'')"

definition htmlListInfoFromGlyph :: "glyph \<Rightarrow> string \<times> string" where
  \<open>htmlListInfoFromGlyph g =
     (if g = BULLET \<or> g = HOLLOW_BULLET \<or> g = SQUARE_BULLET then (''ul'', [])
      else case g of
          NUMBER \<Rightarrow> (''ol'', '' type="1"'')
        | LATIN_UPPER \<Rightarrow> (''ol'', '' type="A"'')
        | LATIN_LOWER \<Rightarrow> (''ol'', '' type="a"'')
        | ROMAN_UPPER \<Rightarrow> (''ol'', '' type="I"'')
        | ROMAN_LOWER \<Rightarrow> (''ol'', '' type="i"'')
        | _ \<Rightarrow> (''ul'', []))\<close>

definition is_alpha :: "char \<Rightarrow> bool" where
  "is_alpha c = (c \<in> set ''ABCDEFGHIJKLMNOPQRSTUVWXYZabcdefghijklmnopqrstuvwxyz'')"

definition knownCommands :: "string list" where
  "knownCommands =
     [''alpha'', ''beta'', ''gamma'', ''delta'', ''epsilon'', ''zeta'', ''eta'', ''theta'',
      ''iota'', ''kappa'', ''lambda'', ''mu'', ''nu'', ''xi'', ''omicron'', ''pi'', ''rho'',
      ''sigma'', ''tau'', ''upsilon'', ''phi'', ''chi'', ''psi'', ''omega'',
      ''Gamma'', ''Delta'', ''Theta'', ''Lambda'', ''Xi'', ''Pi'', ''Sigma'', ''Upsilon'',
      ''Phi'', ''Psi'', ''Omega'',
      ''pm'', ''mp'', ''times'', ''div'', ''cdot'', ''circ'', ''ast'', ''star'', ''oplus'',
      ''otimes'',
      ''leq'', ''geq'', ''neq'', ''approx'', ''sim'', ''equiv'', ''propto'',
      ''in'', ''notin'', ''subset'', ''subseteq'', ''supset'', ''supseteq'', ''cup'', ''cap'',
      ''forall'', ''exists'', ''neg'', ''land'', ''lor'',
      ''rightarrow'', ''leftarrow'', ''leftrightarrow'', ''Rightarrow'', ''Leftarrow'',
      ''Leftrightarrow'',
      ''infty'']"

text \<open>\<^verbatim>\<open>String(code || '').trim().replace(/^\\+/, '')\<close>\<close>

definition normCode :: "string \<Rightarrow> string" where
  "normCode code = dropWhile (\<lambda>c. c = bslash) (trim code)"

definition latexForEquationSymbolCode :: "string \<Rightarrow> string" where
  "latexForEquationSymbolCode code =
     (let trimmed = normCode code in
      if trimmed = [] then []
      else if trimmed = ''superscript'' \<or> trimmed = ''super'' then ''^''
      else if trimmed = ''subscript'' \<or> trimmed = ''sub'' then ''_''
      else if length trimmed = 1 \<and> (is_alpha (hd trimmed) \<or> is_digit (hd trimmed)) then trimmed
      else if list_all is_alpha trimmed \<and> trimmed \<notin> set knownCommands then trimmed
      else bslash # trimmed)"

text \<open>One formatting run of a text element, escaped and wrapped in its styles.\<close>

definition wrapTag :: "string \<Rightarrow> string \<Rightarrow> string" where
  "wrapTag tag html = ''<'' @ tag @ ''>'' @ html @ ''</'' @ tag @ ''>''"

definition styleRun :: "text_attrs \<Rightarrow> string \<Rightarrow> string" where
  \<open>styleRun attrs chunk =
     (let html = replaceAll (lit [CHR 0x0A]) ''<br/>'' (escapeHtml chunk);
          html = (case VERTICAL_ALIGNMENT attrs of
                    SUPERSCRIPT \<Rightarrow> wrapTag ''sup'' html
                  | SUBSCRIPT \<Rightarrow> wrapTag ''sub'' html
                  | NORMAL \<Rightarrow> html);
          html = (if STRIKETHROUGH attrs then wrapTag ''s'' html else html);
          html = (if UNDERLINE attrs then wrapTag ''u'' html else html);
          html = (if ITALIC attrs then wrapTag ''i'' html else html);
          html = (if BOLD attrs then wrapTag ''b'' html else html)
      in case LINK_URL attrs of
           None \<Rightarrow> html
         | Some linkUrl \<Rightarrow>
             if linkUrl = [] then html
             else ''<a href="'' @ escapeHtmlAttr linkUrl
                  @ ''" target="_blank" rel="noopener noreferrer">'' @ html @ ''</a>'')\<close>

text \<open>
  The loop of \<^verbatim>\<open>_extractStyledText\<close> over the attribute indices. The leading marker is
  taken from the first non-empty run only: after that run \<^verbatim>\<open>_markerStripped\<close> is set
  whether or not the marker was there.
\<close>

fun styledRuns :: "text_el \<Rightarrow> nat list \<Rightarrow> ctx \<Rightarrow> string list \<times> ctx" where
  "styledRuns el [] c = ([], c)"
| "styledRuns el (start # rest) c =
     (let end = (case rest of [] \<Rightarrow> length (getText el) | e # _ \<Rightarrow> e);
          chunk = substring (getText el) start end
      in if chunk = [] then styledRuns el rest c
         else
           let try = stripLeadingCorrectMarker c \<and> \<not> markerStripped c;
               chunk' = (if try then stripLeadingMarker chunk else chunk);
               c1 = (if try \<and> chunk' \<noteq> chunk then c\<lparr>markerStripped := True\<rparr> else c);
               c2 = (if stripLeadingCorrectMarker c1 \<and> \<not> markerStripped c1
                     then c1\<lparr>markerStripped := True\<rparr> else c1);
               html = styleRun (getAttributes el start) chunk'
           in case styledRuns el rest c2 of (parts, c3) \<Rightarrow> (html # parts, c3))"

definition extractStyledText :: "text_el \<Rightarrow> ctx \<Rightarrow> string \<times> ctx" where
  "extractStyledText textEl c =
     (if getText textEl = [] then ([], c)
      else case styledRuns textEl (getTextAttributeIndices textEl) c of
             (parts, c') \<Rightarrow> (join parts, c'))"

text \<open>The \<^verbatim>\<open>width\<close> and \<^verbatim>\<open>height\<close> attributes of an image: only for a positive size.\<close>

definition sizeAttr :: "string \<Rightarrow> int option \<Rightarrow> string" where
  \<open>sizeAttr name v =
     (case v of
        None \<Rightarrow> []
      | Some w \<Rightarrow> if 0 < w then '' '' @ name @ ''="'' @ show_nat (nat w) @ ''"'' else [])\<close>

text \<open>
  The INLINE_IMAGE branch of \<^verbatim>\<open>_extractNode\<close>: the next file name of the question, the
  blob stored under it, and the \<^verbatim>\<open>img\<close> element.
\<close>

definition storeImage :: "inline_image \<Rightarrow> rstate \<Rightarrow> string \<Rightarrow> string \<times> rstate" where
  \<open>storeImage inlineImg st questionId =
     (let existingCount =
            length (filter (\<lambda>k. startsWith k (questionId @ ''_'')) (map fst (imageStore st)));
          localCount = existingCount + 1;
          b = getBlob inlineImg;
          ext = getExtension (getContentType b);
          filename = questionId @ ''_img_'' @ padStart3 (show_nat localCount) @ ''.'' @ ext;
          st' = st\<lparr>imageStore := AList.update filename (length (blobs st)) (imageStore st),
                    blobs := blobs st @ [b]\<rparr>
      in (''<img src="images/'' @ filename @ ''"'' @ sizeAttr ''width'' (getWidth inlineImg)
            @ sizeAttr ''height'' (getHeight inlineImg)
            @ '' style="max-width: 100%; height: auto;" />'', st'))\<close>

text \<open>
  The translation of an equation function from its code and its rendered arguments.
  \<^verbatim>\<open>args[0]\<close> of an empty array is \<^verbatim>\<open>undefined\<close>: \<^verbatim>\<open>args[0] || ''\<close> is then the empty
  string, and a template prints it as \<^verbatim>\<open>undefined\<close>.
\<close>

definition arg0_or_empty :: "string list \<Rightarrow> string" where
  "arg0_or_empty args = (case args of [] \<Rightarrow> [] | a # _ \<Rightarrow> a)"

definition arg0_template :: "string list \<Rightarrow> string" where
  "arg0_template args = (case args of [] \<Rightarrow> ''undefined'' | a # _ \<Rightarrow> a)"

definition equationFunction :: "string \<Rightarrow> string list \<Rightarrow> string" where
  "equationFunction funcCode args =
     (if funcCode = ''frac'' then
        (let numerator = arg0_or_empty args;
             denominator = join (drop 1 args)
         in bslash # ''frac{'' @ numerator @ ''}{'' @ denominator @ ''}'')
      else if funcCode = ''root'' then
        (if length args = 2 \<and> args ! 1 \<noteq> []
         then bslash # ''sqrt['' @ args ! 1 @ '']{'' @ args ! 0 @ ''}''
         else bslash # ''sqrt{'' @ arg0_template args @ ''}'')
      else if funcCode = ''super'' \<or> funcCode = ''superscript'' then
        ''^{'' @ arg0_or_empty args @ ''}''
      else if funcCode = ''sub'' \<or> funcCode = ''subscript'' then
        ''_{'' @ arg0_or_empty args @ ''}''
      else if funcCode = [] then join args
      else bslash # funcCode @ join (map (\<lambda>a. ''{'' @ a @ ''}'') args))"

text \<open>
  \<^verbatim>\<open>_extractNode\<close>, the loop of \<^verbatim>\<open>_extractHtml\<close> over the children of an element
  (\<open>extractNodes\<close>: one context object for all children) and the loop over the arguments
  of an equation function (\<open>extractArgs\<close>: a copy of the context for each argument). An
  equation and an equation function hand a copy of the context down, so the caller's
  context comes back as it was.
\<close>

fun extractNode :: "node \<Rightarrow> rstate \<Rightarrow> string \<Rightarrow> ctx \<Rightarrow> string \<times> rstate \<times> ctx"
  and extractNodes :: "node list \<Rightarrow> rstate \<Rightarrow> string \<Rightarrow> ctx \<Rightarrow> string list \<times> rstate \<times> ctx"
  and extractArgs :: "node list \<Rightarrow> rstate \<Rightarrow> string \<Rightarrow> ctx \<Rightarrow> string list \<times> rstate"
where
  "extractNode (TEXT textEl) st questionId c =
     (if inEquation c then (escapeHtml (getText textEl), st, c)
      else case extractStyledText textEl c of (html, c') \<Rightarrow> (html, st, c'))"
| "extractNode (INLINE_IMAGE inlineImg) st questionId c =
     (case storeImage inlineImg st questionId of (html, st') \<Rightarrow> (html, st', c))"
| "extractNode (EQUATION kids) st questionId c =
     (case extractNodes kids st questionId (c\<lparr>inEquation := True\<rparr>) of
        (parts, st', _) \<Rightarrow> (''$'' @ join parts @ ''$'', st', c))"
| "extractNode (EQUATION_FUNCTION funcCodeRaw kids) st questionId c =
     (case extractArgs kids st questionId c of
        (args, st') \<Rightarrow> (equationFunction (normCode funcCodeRaw) args, st', c))"
| "extractNode (EQUATION_SYMBOL code txt) st questionId c =
     (if code \<noteq> [] then (latexForEquationSymbolCode code, st, c)
      else (escapeHtml txt, st, c))"
| "extractNode OTHER_ELEMENT st questionId c = ([], st, c)"
| "extractNodes [] st questionId c = ([], st, c)"
| "extractNodes (child # rest) st questionId c =
     (case extractNode child st questionId c of
        (html, st', c') \<Rightarrow>
          (case extractNodes rest st' questionId c' of
             (parts, st'', c'') \<Rightarrow> (html # parts, st'', c'')))"
| "extractArgs [] st questionId c = ([], st)"
| "extractArgs (child # rest) st questionId c =
     (case extractNode child st questionId (c\<lparr>inEquation := True\<rparr>) of
        (html, st', _) \<Rightarrow>
          (case extractArgs rest st' questionId c of
             (args, st'') \<Rightarrow> (html # args, st'')))"

definition extractHtml :: "node list \<Rightarrow> rstate \<Rightarrow> string \<Rightarrow> ctx \<Rightarrow> string \<times> rstate \<times> ctx" where
  "extractHtml children st questionId c =
     (case extractNodes children st questionId c of
        (parts, st', c') \<Rightarrow> (join parts, st', c'))"

subsection \<open>Lists and tables\<close>

text \<open>
  The three local variables of \<^verbatim>\<open>_extractTableHtml\<close> that follow the list a cell is in.
  \<^verbatim>\<open>listTag\<close> is \<^verbatim>\<open>null\<close> while no list is open.
\<close>

record list_state =
  listOpen :: bool
  listTag :: "string option"
  listAttrs :: string

definition closed_list :: list_state where
  "closed_list = \<lparr>listOpen = False, listTag = None, listAttrs = []\<rparr>"

definition tagName :: "string option \<Rightarrow> string" where
  "tagName t = (case t of None \<Rightarrow> ''null'' | Some s \<Rightarrow> s)"

definition closeList :: "list_state \<Rightarrow> string \<times> list_state" where
  "closeList ls =
     (if \<not> listOpen ls then ([], ls)
      else (''</'' @ tagName (listTag ls) @ ''>'', closed_list))"

definition enterList :: "string \<times> string \<Rightarrow> list_state \<Rightarrow> string \<times> list_state" where
  "enterList info ls =
     (if \<not> listOpen ls \<or> listTag ls \<noteq> Some (fst info) \<or> listAttrs ls \<noteq> snd info
      then (fst (closeList ls) @ ''<'' @ fst info @ snd info @ ''>'',
            \<lparr>listOpen = True, listTag = Some (fst info), listAttrs = snd info\<rparr>)
      else ([], ls))"

text \<open>
  \<^verbatim>\<open>_extractTableHtml\<close>: the loops over the rows, over the cells of a row and over the
  blocks of a cell. Paragraphs and list items of a cell are rendered with no context.
\<close>

fun tableRows :: "block list list list \<Rightarrow> rstate \<Rightarrow> string \<Rightarrow> string \<times> rstate"
  and rowCells :: "block list list \<Rightarrow> rstate \<Rightarrow> string \<Rightarrow> string \<times> rstate"
  and cellBlocks :: "block list \<Rightarrow> list_state \<Rightarrow> rstate \<Rightarrow> string \<Rightarrow> string \<times> list_state \<times> rstate"
where
  "tableRows [] st questionId = ([], st)"
| "tableRows (row # rows) st questionId =
     (case rowCells row st questionId of
        (h, st') \<Rightarrow>
          (case tableRows rows st' questionId of
             (h', st'') \<Rightarrow> (''<tr>'' @ h @ ''</tr>'' @ h', st'')))"
| "rowCells [] st questionId = ([], st)"
| "rowCells (cell # cells) st questionId =
     (case cellBlocks cell closed_list st questionId of
        (h, ls, st') \<Rightarrow>
          (case rowCells cells st' questionId of
             (h', st'') \<Rightarrow> (''<td>'' @ h @ fst (closeList ls) @ ''</td>'' @ h', st'')))"
| "cellBlocks [] ls st questionId = ([], ls, st)"
| "cellBlocks (PARAGRAPH t kids # rest) ls st questionId =
     (case closeList ls of
        (hc, ls1) \<Rightarrow>
          (case extractHtml kids st questionId no_ctx of
             (html, st1, _) \<Rightarrow>
               (case cellBlocks rest ls1 st1 questionId of
                  (h', ls', st') \<Rightarrow> (hc @ html @ ''<br/>'' @ h', ls', st'))))"
| "cellBlocks (LIST_ITEM t g kids # rest) ls st questionId =
     (case enterList (htmlListInfoFromGlyph g) ls of
        (ho, ls1) \<Rightarrow>
          (case extractHtml kids st questionId no_ctx of
             (html, st1, _) \<Rightarrow>
               (case cellBlocks rest ls1 st1 questionId of
                  (h', ls', st') \<Rightarrow> (ho @ ''<li>'' @ html @ ''</li>'' @ h', ls', st'))))"
| "cellBlocks (TABLE rows # rest) ls st questionId =
     (case closeList ls of
        (hc, ls1) \<Rightarrow>
          (case tableRows rows st questionId of
             (html, st1) \<Rightarrow>
               (case cellBlocks rest ls1 st1 questionId of
                  (h', ls', st') \<Rightarrow>
                    (hc @ ''<table>'' @ html @ ''</table>'' @ h', ls', st'))))"
| "cellBlocks (OTHER_BLOCK # rest) ls st questionId = cellBlocks rest ls st questionId"

definition extractTableHtml :: "block list list list \<Rightarrow> rstate \<Rightarrow> string \<Rightarrow> string \<times> rstate" where
  "extractTableHtml table st questionId =
     (case tableRows table st questionId of
        (html, st') \<Rightarrow> (''<table>'' @ html @ ''</table>'', st'))"

section \<open>Quiz model and document parser (Core.js)\<close>

datatype quiz_type = MCQ | ESSAY

datatype pmode = WAITING | READING_QUESTION | READING_OPTIONS | READING_DESCRIPTIONS

text \<open>
  An option of a question. \<^verbatim>\<open>choiceText\<close> is \<open>None\<close> for an option object that has no
  such string, as in a model that was not built by the parser.
\<close>

record quiz_option =
  o_id :: string
  o_text :: string
  o_choiceText :: "string option"
  o_isCorrect :: bool
  o_line :: nat

text \<open>The question object of \<^verbatim>\<open>_createQuestionObj\<close>, with every field it has.\<close>

record question =
  q_num :: nat
  q_id :: string
  q_line :: nat
  q_content :: string
  contentHtmlParts :: "string list"
  q_descriptions :: "string option"
  descriptionHtmlParts :: "string list"
  hasOptionsTag :: bool
  optionsTagLine :: nat
  hasDescriptionsTag :: bool
  descriptionsTagLine :: nat
  q_options :: "quiz_option list"
  q_listOpen :: bool
  q_listTag :: "string option"
  q_listAttrs :: string
  q_descListOpen :: bool
  q_descListTag :: "string option"
  q_descListAttrs :: string

text \<open>The value \<^verbatim>\<open>parse\<close> returns; the blobs that \<open>images\<close> addresses are in the heap.\<close>

record parse_result =
  quizType :: "quiz_type option"
  questions :: "question list"
  images :: "(string \<times> nat) list"

text \<open>Every \<^verbatim>\<open>throw\<close> of the parser, with the values its message is built from.\<close>

datatype parse_error =
    MissingHeaderFound string
  | MissingHeader
  | InvalidBeginPlacement nat quiz_type nat
  | InvalidQuestionTag string
  | InvalidOptionsPlacement nat
  | InvalidOptionsForEssay nat
  | DuplicateOptionsTag nat nat
  | InvalidDescriptionsPlacement nat
  | InvalidDescriptionsPlacementMCQ nat
  | InvalidDescriptionsPlacementESSAY nat
  | DuplicateDescriptionsTag nat nat

definition createQuestionObj :: "nat \<Rightarrow> nat \<Rightarrow> question" where
  "createQuestionObj num line =
     \<lparr>q_num = num, q_id = ''q'' @ show_nat num, q_line = line, q_content = [],
      contentHtmlParts = [], q_descriptions = None, descriptionHtmlParts = [],
      hasOptionsTag = False, optionsTagLine = 0,
      hasDescriptionsTag = False, descriptionsTagLine = 0,
      q_options = [],
      q_listOpen = False, q_listTag = None, q_listAttrs = [],
      q_descListOpen = False, q_descListTag = None, q_descListAttrs = []\<rparr>"

text \<open>\<^verbatim>\<open>_parseBeginTag\<close>: the whole trimmed text is one of the two headers.\<close>

definition parseBeginTag :: "string \<Rightarrow> quiz_type option" where
  "parseBeginTag text =
     (let t = trim text in
      if t = ''[BEGIN#MCQ]'' then Some MCQ
      else if t = ''[BEGIN#ESSAY]'' then Some ESSAY
      else None)"

text \<open>
  \<^verbatim>\<open>_parseQuestionTag\<close>. The label is \<^verbatim>\<open>Number(m[1])\<close>, exact for a label below
  \<open>2 ^ 53\<close>; nothing reads it.
\<close>

record question_tag =
  inlineText :: string
  labelNumber :: "nat option"

definition digits_value :: "string \<Rightarrow> nat" where
  "digits_value ds = foldl (\<lambda>a c. 10 * a + (of_char c - 48)) 0 ds"

definition parseQuestionTag :: "string \<Rightarrow> parse_error + question_tag option" where
  "parseQuestionTag text =
     (let t = trim text in
      if \<not> startsWith t ''[QUESTION'' then Inr None
      else if startsWith t ''[QUESTION]'' then
        Inr (Some \<lparr>inlineText = trim (drop (length ''[QUESTION]'') t), labelNumber = None\<rparr>)
      else
        (let r = drop (length ''[QUESTION#'') t;
             ds = takeWhile is_digit r;
             r' = dropWhile is_digit r
         in if startsWith t ''[QUESTION#'' \<and> ds \<noteq> [] \<and> startsWith r' '']''
               \<and> \<not> list_ex is_line_terminator (drop 1 r')
            then Inr (Some \<lparr>inlineText = trim (drop 1 r'), labelNumber = Some (digits_value ds)\<rparr>)
            else Inl (InvalidQuestionTag t)))"

text \<open>The two closures of \<^verbatim>\<open>parse\<close> that close an open list of the current question.\<close>

definition closeQuestionListIfOpen :: "question \<Rightarrow> question" where
  "closeQuestionListIfOpen q =
     (if \<not> q_listOpen q then q
      else q\<lparr>contentHtmlParts := contentHtmlParts q @ [''</'' @ tagName (q_listTag q) @ ''>''],
             q_listOpen := False, q_listTag := None, q_listAttrs := []\<rparr>)"

definition closeDescriptionListIfOpen :: "question \<Rightarrow> question" where
  "closeDescriptionListIfOpen q =
     (if \<not> q_descListOpen q then q
      else q\<lparr>descriptionHtmlParts :=
               descriptionHtmlParts q @ [''</'' @ tagName (q_descListTag q) @ ''>''],
             q_descListOpen := False, q_descListTag := None, q_descListAttrs := []\<rparr>)"

definition closeLists :: "question \<Rightarrow> question" where
  "closeLists q = closeDescriptionListIfOpen (closeQuestionListIfOpen q)"

subsection \<open>The header scan\<close>

text \<open>
  The first loop of \<^verbatim>\<open>parse\<close>, from block \<open>i\<close> on: the type and index of the header,
  \<open>None\<close> when the loop ends without one.
\<close>

definition headerOf :: "string \<Rightarrow> nat \<Rightarrow> parse_error + (quiz_type \<times> nat) option" where
  "headerOf t i =
     (case parseBeginTag t of
        None \<Rightarrow> Inl (MissingHeaderFound t)
      | Some ty \<Rightarrow> Inr (Some (ty, i)))"

fun scanHeader :: "block list \<Rightarrow> nat \<Rightarrow> parse_error + (quiz_type \<times> nat) option" where
  "scanHeader [] i = Inr None"
| "scanHeader (PARAGRAPH txt kids # rest) i =
     (if trim txt = [] then scanHeader rest (i + 1) else headerOf (trim txt) i)"
| "scanHeader (LIST_ITEM txt g kids # rest) i =
     (if trim txt = [] then scanHeader rest (i + 1) else headerOf (trim txt) i)"
| "scanHeader (TABLE rows # rest) i = Inl MissingHeader"
| "scanHeader (OTHER_BLOCK # rest) i = Inl MissingHeader"

subsection \<open>The state machine\<close>

text \<open>
  The variables of the second loop: \<open>closed\<close> is \<^verbatim>\<open>result.questions\<close>, the questions
  pushed so far; \<^verbatim>\<open>currentQuestion\<close> is \<open>None\<close> for \<^verbatim>\<open>null\<close>; \<^verbatim>\<open>state\<close>; and \<open>store\<close>
  is \<^verbatim>\<open>result.images\<close> with the heap of its blobs.
\<close>

record pstate =
  closed :: "question list"
  currentQuestion :: "question option"
  state :: pmode
  store :: rstate

definition blockText :: "block \<Rightarrow> string" where
  "blockText element =
     (case element of
        PARAGRAPH txt kids \<Rightarrow> trim txt
      | LIST_ITEM txt g kids \<Rightarrow> trim txt
      | _ \<Rightarrow> [])"

text \<open>A question tag: the current question is closed and pushed, the next one starts.\<close>

definition startQuestion :: "question_tag \<Rightarrow> nat \<Rightarrow> pstate \<Rightarrow> pstate" where
  "startQuestion questionTag line ps =
     (let qs = (case currentQuestion ps of
                  None \<Rightarrow> closed ps
                | Some q \<Rightarrow> closed ps @ [closeLists q]);
          q0 = createQuestionObj (length qs + 1) line;
          q1 = (if inlineText questionTag \<noteq> []
                then q0\<lparr>contentHtmlParts :=
                          contentHtmlParts q0 @ [''<p>'' @ escapeHtml (inlineText questionTag) @ ''</p>'']\<rparr>
                else q0)
      in ps\<lparr>closed := qs, currentQuestion := Some q1, state := READING_QUESTION\<rparr>)"

definition optionsTag :: "quiz_type \<Rightarrow> nat \<Rightarrow> pstate \<Rightarrow> parse_error + pstate" where
  "optionsTag ty line ps =
     (case currentQuestion ps of
        None \<Rightarrow> Inl (InvalidOptionsPlacement line)
      | Some q \<Rightarrow>
          if ty = ESSAY then Inl (InvalidOptionsForEssay line)
          else if hasOptionsTag q then Inl (DuplicateOptionsTag (q_num q) line)
          else Inr (ps\<lparr>currentQuestion :=
                          Some (closeLists (q\<lparr>hasOptionsTag := True, optionsTagLine := line\<rparr>)),
                        state := READING_OPTIONS\<rparr>))"

definition descriptionsTag :: "quiz_type \<Rightarrow> nat \<Rightarrow> pstate \<Rightarrow> parse_error + pstate" where
  "descriptionsTag ty line ps =
     (case currentQuestion ps of
        None \<Rightarrow> Inl (InvalidDescriptionsPlacement line)
      | Some q \<Rightarrow>
          if ty = MCQ \<and> state ps \<noteq> READING_OPTIONS then Inl (InvalidDescriptionsPlacementMCQ line)
          else if ty = ESSAY \<and> state ps \<noteq> READING_QUESTION
          then Inl (InvalidDescriptionsPlacementESSAY line)
          else if hasDescriptionsTag q then Inl (DuplicateDescriptionsTag (q_num q) line)
          else Inr (ps\<lparr>currentQuestion :=
                          Some (closeLists (q\<lparr>hasDescriptionsTag := True,
                                               descriptionsTagLine := line\<rparr>)),
                        state := READING_DESCRIPTIONS\<rparr>))"

text \<open>A list item of the question content: its list is opened when it differs from the open one.\<close>

definition enterQuestionList :: "string \<times> string \<Rightarrow> question \<Rightarrow> question" where
  "enterQuestionList info q =
     (if \<not> q_listOpen q \<or> q_listTag q \<noteq> Some (fst info) \<or> q_listAttrs q \<noteq> snd info
      then (let q' = closeQuestionListIfOpen q
            in q'\<lparr>contentHtmlParts := contentHtmlParts q' @ [''<'' @ fst info @ snd info @ ''>''],
                  q_listOpen := True, q_listTag := Some (fst info), q_listAttrs := snd info\<rparr>)
      else q)"

definition enterDescriptionList :: "string \<times> string \<Rightarrow> question \<Rightarrow> question" where
  "enterDescriptionList info q =
     (if \<not> q_descListOpen q \<or> q_descListTag q \<noteq> Some (fst info) \<or> q_descListAttrs q \<noteq> snd info
      then (let q' = closeDescriptionListIfOpen q
            in q'\<lparr>descriptionHtmlParts :=
                    descriptionHtmlParts q' @ [''<'' @ fst info @ snd info @ ''>''],
                  q_descListOpen := True, q_descListTag := Some (fst info),
                  q_descListAttrs := snd info\<rparr>)
      else q)"

definition pushContent :: "string \<Rightarrow> question \<Rightarrow> question" where
  "pushContent html q = q\<lparr>contentHtmlParts := contentHtmlParts q @ [html]\<rparr>"

definition pushDescription :: "string \<Rightarrow> question \<Rightarrow> question" where
  "pushDescription html q = q\<lparr>descriptionHtmlParts := descriptionHtmlParts q @ [html]\<rparr>"

text \<open>A block read in state \<^verbatim>\<open>READING_QUESTION\<close>.\<close>

definition readQuestion :: "block \<Rightarrow> question \<Rightarrow> rstate \<Rightarrow> question \<times> rstate" where
  "readQuestion element q st =
     (case element of
        PARAGRAPH txt kids \<Rightarrow>
          (let q1 = closeQuestionListIfOpen q in
           case extractHtml kids st (q_id q1) no_ctx of
             (html, st', _) \<Rightarrow>
               (if html \<noteq> [] then pushContent (''<p>'' @ html @ ''</p>'') q1 else q1, st'))
      | TABLE rows \<Rightarrow>
          (let q1 = closeQuestionListIfOpen q in
           case extractTableHtml rows st (q_id q1) of
             (html, st') \<Rightarrow> (pushContent html q1, st'))
      | LIST_ITEM txt g kids \<Rightarrow>
          (case extractHtml kids st (q_id q) no_ctx of
             (html, st', _) \<Rightarrow>
               (pushContent (''<li>'' @ html @ ''</li>'')
                  (enterQuestionList (htmlListInfoFromGlyph g) q), st'))
      | OTHER_BLOCK \<Rightarrow> (q, st))"

text \<open>A block read in state \<^verbatim>\<open>READING_OPTIONS\<close>: only a list item makes an option.\<close>

definition choiceTextOf :: "string \<Rightarrow> string" where
  "choiceTextOf rawText = replaceAll ws_run '' '' (trim (stripLeadingMarker rawText))"

definition readOptions :: "nat \<Rightarrow> block \<Rightarrow> question \<Rightarrow> rstate \<Rightarrow> question \<times> rstate" where
  "readOptions line element q st =
     (case element of
        LIST_ITEM txt g kids \<Rightarrow>
          (let rawText = trim txt;
               choice = choiceTextOf rawText;
               correct = hasLeadingMarker rawText;
               htmlContext = (if correct
                              then \<lparr>inEquation = False, stripLeadingCorrectMarker = True,
                                    markerStripped = False\<rparr>
                              else no_ctx)
           in case extractHtml kids st (q_id q) htmlContext of
                (html, st', _) \<Rightarrow>
                  (q\<lparr>q_options := q_options q @
                        [\<lparr>o_id = ''opt_'' @ show_nat (length (q_options q)), o_text = html,
                          o_choiceText = Some choice, o_isCorrect = correct, o_line = line\<rparr>]\<rparr>,
                   st'))
      | _ \<Rightarrow> (q, st))"

text \<open>A block read in state \<^verbatim>\<open>READING_DESCRIPTIONS\<close>.\<close>

definition readDescriptions :: "block \<Rightarrow> question \<Rightarrow> rstate \<Rightarrow> question \<times> rstate" where
  "readDescriptions element q st =
     (case element of
        PARAGRAPH txt kids \<Rightarrow>
          (let q1 = closeDescriptionListIfOpen q in
           case extractHtml kids st (q_id q1) no_ctx of
             (html, st', _) \<Rightarrow>
               (if html \<noteq> [] then pushDescription (''<p>'' @ html @ ''</p>'') q1 else q1, st'))
      | TABLE rows \<Rightarrow>
          (let q1 = closeDescriptionListIfOpen q in
           case extractTableHtml rows st (q_id q1) of
             (html, st') \<Rightarrow> (pushDescription html q1, st'))
      | LIST_ITEM txt g kids \<Rightarrow>
          (case extractHtml kids st (q_id q) no_ctx of
             (html, st', _) \<Rightarrow>
               (pushDescription (''<li>'' @ html @ ''</li>'')
                  (enterDescriptionList (htmlListInfoFromGlyph g) q), st'))
      | OTHER_BLOCK \<Rightarrow> (q, st))"

text \<open>Content by state; with no current question the block is skipped.\<close>

definition readContent :: "nat \<Rightarrow> block \<Rightarrow> pstate \<Rightarrow> pstate" where
  "readContent line element ps =
     (case currentQuestion ps of
        None \<Rightarrow> ps
      | Some q \<Rightarrow>
          (case (case state ps of
                   READING_QUESTION \<Rightarrow> readQuestion element q (store ps)
                 | READING_OPTIONS \<Rightarrow> readOptions line element q (store ps)
                 | READING_DESCRIPTIONS \<Rightarrow> readDescriptions element q (store ps)
                 | WAITING \<Rightarrow> (q, store ps)) of
             (q', st') \<Rightarrow> ps\<lparr>currentQuestion := Some q', store := st'\<rparr>))"

text \<open>
  One pass of the second loop, for block \<open>i\<close> (line \<open>i + 1\<close>) other than the header.
\<close>

definition step :: "quiz_type \<Rightarrow> nat \<Rightarrow> nat \<Rightarrow> block \<Rightarrow> pstate \<Rightarrow> parse_error + pstate" where
  "step ty beginLine i element ps =
     (let text = blockText element in
      if text \<noteq> [] \<and> startsWith text ''[BEGIN#''
      then Inl (InvalidBeginPlacement (i + 1) ty beginLine)
      else case parseQuestionTag text of
             Inl e \<Rightarrow> Inl e
           | Inr (Some questionTag) \<Rightarrow> Inr (startQuestion questionTag (i + 1) ps)
           | Inr None \<Rightarrow>
               if startsWith text ''[OPTIONS]'' then optionsTag ty (i + 1) ps
               else if startsWith text ''[DESCRIPTIONS]'' then descriptionsTag ty (i + 1) ps
               else Inr (readContent (i + 1) element ps))"

fun mainLoop :: "quiz_type \<Rightarrow> nat \<Rightarrow> nat \<Rightarrow> block list \<Rightarrow> pstate \<Rightarrow> parse_error + pstate" where
  "mainLoop ty beginIndex i [] ps = Inr ps"
| "mainLoop ty beginIndex i (element # rest) ps =
     (if i = beginIndex then mainLoop ty beginIndex (i + 1) rest ps
      else case step ty (beginIndex + 1) i element ps of
             Inl e \<Rightarrow> Inl e
           | Inr ps' \<Rightarrow> mainLoop ty beginIndex (i + 1) rest ps')"

text \<open>The end of \<^verbatim>\<open>parse\<close>: the last question is pushed, the HTML parts are joined.\<close>

definition finalizeQuestion :: "question \<Rightarrow> question" where
  "finalizeQuestion q =
     (let desc = join (descriptionHtmlParts q)
      in q\<lparr>q_content := join (contentHtmlParts q),
           q_descriptions := (if desc \<noteq> [] then Some desc else None)\<rparr>)"

definition finish :: "quiz_type \<Rightarrow> pstate \<Rightarrow> parse_result \<times> heap" where
  "finish ty ps =
     (let qs = (case currentQuestion ps of
                  None \<Rightarrow> closed ps
                | Some q \<Rightarrow> closed ps @ [closeLists q])
      in (\<lparr>quizType = Some ty, questions = map finalizeQuestion qs,
           images = imageStore (store ps)\<rparr>, blobs (store ps)))"

definition initial :: pstate where
  "initial = \<lparr>closed = [], currentQuestion = None, state = WAITING,
     store = \<lparr>imageStore = [], blobs = []\<rparr>\<rparr>"

definition parse :: "block list \<Rightarrow> parse_error + (parse_result \<times> heap)" where
  "parse body =
     (case scanHeader body 0 of
        Inl e \<Rightarrow> Inl e
      | Inr None \<Rightarrow> Inl MissingHeader
      | Inr (Some (ty, beginIndex)) \<Rightarrow>
          (case mainLoop ty beginIndex 0 body initial of
             Inl e \<Rightarrow> Inl e
           | Inr ps \<Rightarrow> Inr (finish ty ps)))"

section \<open>Validator (Services.js)\<close>

text \<open>
  An entry of \<^verbatim>\<open>errors\<close> or \<^verbatim>\<open>warnings\<close> is the template of its message with the values
  it interpolates, and a line; \<open>message\<close> is the string the template makes.
\<close>

datatype vmsg =
    InvalidQuizType
  | NoQuestions
  | ContentEmpty nat
  | OptionsNotAllowedForEssay nat
  | MissingOptions nat
  | NeedsTwoOptions nat nat
  | NoCorrectAnswer nat
  | MultipleCorrectAnswers nat nat
  | DuplicateOptions nat string
  | OptionTextEmpty nat nat

fun message :: "vmsg \<Rightarrow> string" where
  "message InvalidQuizType =
     ''Missing or invalid quiz type header. The first non-empty line must be [BEGIN#MCQ] or [BEGIN#ESSAY].''"
| "message NoQuestions =
     ''No questions found. Please add at least one [QUESTION] / [QUESTION#n] block.''"
| "message (ContentEmpty n) = ''Question '' @ show_nat n @ '': Content is empty.''"
| "message (OptionsNotAllowedForEssay n) =
     ''Question '' @ show_nat n
       @ '': [OPTIONS] is not allowed for ESSAY. Remove [OPTIONS] and the option list.''"
| "message (MissingOptions n) =
     ''Question '' @ show_nat n
       @ '': Missing [OPTIONS]. MCQ questions must have an [OPTIONS] section.''"
| "message (NeedsTwoOptions n count) =
     ''Question '' @ show_nat n @ '': Needs at least 2 options (found '' @ show_nat count @ '').''"
| "message (NoCorrectAnswer n) =
     ''Question '' @ show_nat n @ '': No correct answer marked. Add '' @ [CHR 0x27] @ ''<>''
       @ [CHR 0x27] @ '' to one option.''"
| "message (MultipleCorrectAnswers n correctCount) =
     ''Question '' @ show_nat n @ '': Multiple correct answers found ('' @ show_nat correctCount
       @ ''). Only one allowed.''"
| "message (DuplicateOptions n key) =
     ''Question '' @ show_nat n @ '': Duplicate options found: '' @ [CHR 0x22] @ key @ [CHR 0x22]
       @ ''. Options must be unique.''"
| "message (OptionTextEmpty n k) =
     ''Question '' @ show_nat n @ '', Option '' @ show_nat k @ '': Option text is empty.''"

record entry =
  msg :: vmsg
  line :: nat

record validation =
  isValid :: bool
  errors :: "entry list"
  warnings :: "entry list"

subsection \<open>Option keys\<close>

text \<open>\<^verbatim>\<open>/<\s*br\s*\/?\s*>/gi\<close>\<close>

definition br_tag :: "string \<Rightarrow> nat option" where
  "br_tag s =
     (if \<not> startsWith s ''<'' then None
      else
        (let r1 = dropWhile is_space (drop 1 s) in
         if 2 \<le> length r1 \<and> r1 ! 0 \<in> set ''bB'' \<and> r1 ! 1 \<in> set ''rR'' then
           (let r2 = dropWhile is_space (drop 2 r1);
                r3 = (if startsWith r2 ''/'' then drop 1 r2 else r2);
                r4 = dropWhile is_space r3
            in if startsWith r4 ''>'' then Some (length s - length r4 + 1) else None)
         else None))"

text \<open>\<^verbatim>\<open>/<[^>]+>/g\<close>\<close>

definition any_tag :: "string \<Rightarrow> nat option" where
  "any_tag s =
     (if \<not> startsWith s ''<'' then None
      else
        (let n = length (takeWhile (\<lambda>c. c \<noteq> CHR ''>'') (drop 1 s)) in
         if 0 < n \<and> n + 1 < length s then Some (n + 2) else None))"

definition stripHtml :: "string \<Rightarrow> string" where
  "stripHtml html =
     replaceAll (lit ''&#39;'') [CHR 0x27]
       (replaceAll (lit ''&quot;'') [CHR 0x22]
         (replaceAll (lit ''&gt;'') ''>''
           (replaceAll (lit ''&lt;'') ''<''
             (replaceAll (lit ''&amp;'') ''&''
               (replaceAll (lit ''&nbsp;'') '' ''
                 (replaceAll any_tag []
                   (replaceAll br_tag '' '' html)))))))"

definition normalizeOptionLine :: "quiz_option \<Rightarrow> string" where
  "normalizeOptionLine opt =
     (let base = (case o_choiceText opt of
                    Some c \<Rightarrow> c
                  | None \<Rightarrow> stripHtml (o_text opt))
      in replaceAll ws_run '' '' (trim base))"

subsection \<open>The checks of one question\<close>

text \<open>
  \<^verbatim>\<open>seen[key] = idx\<close> on the plain object \<^verbatim>\<open>seen\<close>: the key \<^verbatim>\<open>__proto__\<close> is the
  inherited accessor, which ignores a number, so no own property is made for it.
\<close>

definition setOwn :: "(string \<rightharpoonup> nat) \<Rightarrow> string \<Rightarrow> nat \<Rightarrow> (string \<rightharpoonup> nat)" where
  "setOwn seen key idx = (if key = ''__proto__'' then seen else seen(key \<mapsto> idx))"

text \<open>The loop of check 4 from option \<open>idx\<close> on, with the keys seen so far.\<close>

fun duplicateErrors :: "question \<Rightarrow> (string \<rightharpoonup> nat) \<Rightarrow> nat \<Rightarrow> quiz_option list \<Rightarrow> entry list" where
  "duplicateErrors q seen idx [] = []"
| "duplicateErrors q seen idx (opt # rest) =
     (let key = normalizeOptionLine opt in
      if key = [] then duplicateErrors q seen (idx + 1) rest
      else if seen key \<noteq> None then
        \<lparr>msg = DuplicateOptions (q_num q) key,
         line = (if o_line opt \<noteq> 0 then o_line opt else q_line q)\<rparr>
          # duplicateErrors q seen (idx + 1) rest
      else duplicateErrors q (setOwn seen key idx) (idx + 1) rest)"

text \<open>The loop of check 5 from option \<open>idx\<close> on.\<close>

fun emptyOptionWarnings :: "question \<Rightarrow> nat \<Rightarrow> quiz_option list \<Rightarrow> entry list" where
  "emptyOptionWarnings q idx [] = []"
| "emptyOptionWarnings q idx (opt # rest) =
     (if trim (o_text opt) = []
      then \<lparr>msg = OptionTextEmpty (q_num q) (idx + 1), line = o_line opt\<rparr>
             # emptyOptionWarnings q (idx + 1) rest
      else emptyOptionWarnings q (idx + 1) rest)"

definition contentErrors :: "question \<Rightarrow> entry list" where
  "contentErrors q =
     (if trim (q_content q) = [] then [\<lparr>msg = ContentEmpty (q_num q), line = q_line q\<rparr>] else [])"

text \<open>
  \<^verbatim>\<open>q.optionsTagLine || (q.options[0] && q.options[0].line) || q.line\<close>: a line that is 0
  is passed over.
\<close>

definition essayLine :: "question \<Rightarrow> nat" where
  "essayLine q =
     (if optionsTagLine q \<noteq> 0 then optionsTagLine q
      else case q_options q of
             [] \<Rightarrow> q_line q
           | opt # _ \<Rightarrow> if o_line opt \<noteq> 0 then o_line opt else q_line q)"

definition essayErrors :: "question \<Rightarrow> entry list" where
  "essayErrors q =
     (if hasOptionsTag q \<or> q_options q \<noteq> []
      then [\<lparr>msg = OptionsNotAllowedForEssay (q_num q), line = essayLine q\<rparr>] else [])"

definition missingOptionsErrors :: "question \<Rightarrow> entry list" where
  "missingOptionsErrors q =
     (if \<not> hasOptionsTag q then [\<lparr>msg = MissingOptions (q_num q), line = q_line q\<rparr>] else [])"

definition optionCountErrors :: "question \<Rightarrow> entry list" where
  "optionCountErrors q =
     (if length (q_options q) < 2
      then [\<lparr>msg = NeedsTwoOptions (q_num q) (length (q_options q)),
              line = (if optionsTagLine q \<noteq> 0 then optionsTagLine q else q_line q)\<rparr>]
      else [])"

definition correctCount :: "question \<Rightarrow> nat" where
  "correctCount q = length (filter o_isCorrect (q_options q))"

definition correctAnswerErrors :: "question \<Rightarrow> entry list" where
  "correctAnswerErrors q =
     (if correctCount q = 0 then [\<lparr>msg = NoCorrectAnswer (q_num q), line = q_line q\<rparr>]
      else if 1 < correctCount q
      then [\<lparr>msg = MultipleCorrectAnswers (q_num q) (correctCount q), line = q_line q\<rparr>]
      else [])"

text \<open>The body of \<^verbatim>\<open>questions.forEach\<close>: the errors and the warnings it pushes.\<close>

definition validateQuestion :: "quiz_type \<Rightarrow> question \<Rightarrow> entry list \<times> entry list" where
  "validateQuestion ty q =
     (if ty = ESSAY then (contentErrors q @ essayErrors q, [])
      else (contentErrors q @ missingOptionsErrors q @ optionCountErrors q
              @ correctAnswerErrors q @ duplicateErrors q Map.empty 0 (q_options q),
            emptyOptionWarnings q 0 (q_options q)))"

fun validateQuestions :: "quiz_type \<Rightarrow> question list \<Rightarrow> entry list \<times> entry list" where
  "validateQuestions ty [] = ([], [])"
| "validateQuestions ty (q # qs) =
     (case validateQuestion ty q of
        (es, ws) \<Rightarrow>
          (case validateQuestions ty qs of
             (es', ws') \<Rightarrow> (es @ es', ws @ ws')))"

definition validate :: "parse_result \<Rightarrow> validation" where
  "validate parseResult =
     (case quizType parseResult of
        None \<Rightarrow> \<lparr>isValid = False, errors = [\<lparr>msg = InvalidQuizType, line = 0\<rparr>], warnings = []\<rparr>
      | Some ty \<Rightarrow>
          if questions parseResult = []
          then \<lparr>isValid = False, errors = [\<lparr>msg = NoQuestions, line = 0\<rparr>], warnings = []\<rparr>
          else case validateQuestions ty (questions parseResult) of
                 (es, ws) \<Rightarrow> \<lparr>isValid = (es = []), errors = es, warnings = ws\<rparr>)"

text \<open>
  Parse, then validate, as \<^verbatim>\<open>validateAndShowResults\<close> and \<^verbatim>\<open>exportQuiz\<close> do: an error
  of the parser ends the run before the validator is called.
\<close>

definition parseThenValidate :: "block list \<Rightarrow> parse_error + validation" where
  "parseThenValidate body =
     (case parse body of
        Inl e \<Rightarrow> Inl e
      | Inr (parseResult, h) \<Rightarrow> Inr (validate parseResult))"

section \<open>Exporter (Services.js)\<close>

record export_option =
  x_content :: string
  is_correct :: bool

record export_question =
  x_id :: string
  x_question_content :: string
  x_descriptions :: "string option"
  x_options :: "export_option list"

record export_json =
  generated_at :: string
  quiz_type :: "quiz_type option"
  question_count :: nat
  x_questions :: "export_question list"

text \<open>
  The archive: \<^verbatim>\<open>quiz.json\<close> with the exported object, then the image blobs as they are
  when the archive is made.
\<close>

datatype zip_entry = JsonFile string export_json | BlobFile blob

record zip =
  zip_name :: string
  zip_entries :: "zip_entry list"

definition exportQuestion :: "question \<Rightarrow> export_question" where
  "exportQuestion q =
     \<lparr>x_id = q_id q,
      x_question_content = q_content q,
      x_descriptions = (case q_descriptions q of
                          None \<Rightarrow> None
                        | Some d \<Rightarrow> if trim d \<noteq> [] then Some d else None),
      x_options = map (\<lambda>opt. \<lparr>x_content = o_text opt, is_correct = o_isCorrect opt\<rparr>) (q_options q)\<rparr>"

text \<open>\<^verbatim>\<open>blob.setName(name)\<close> on the blob at address \<open>a\<close>.\<close>

definition setName :: "nat \<Rightarrow> string \<Rightarrow> heap \<Rightarrow> heap" where
  "setName a name h = (if a < length h then h[a := (h ! a)\<lparr>getName := name\<rparr>] else h)"

text \<open>The loop over \<^verbatim>\<open>Object.entries(parseResult.images)\<close>.\<close>

fun renameBlobs :: "(string \<times> nat) list \<Rightarrow> heap \<Rightarrow> heap" where
  "renameBlobs [] h = h"
| "renameBlobs ((filename, a) # rest) h = renameBlobs rest (setName a (''images/'' @ filename) h)"

definition blobFiles :: "(string \<times> nat) list \<Rightarrow> heap \<Rightarrow> zip_entry list" where
  "blobFiles entries h =
     concat (map (\<lambda>(filename, a). if a < length h then [BlobFile (h ! a)] else []) entries)"

text \<open>
  \<^verbatim>\<open>generateZip\<close> at time \<open>now\<close> (\<^verbatim>\<open>new Date().toISOString()\<close>): the archive and the heap
  after the call. The function assigns to no field of \<open>parseResult\<close>; what it writes is the
  name of each blob that \<open>images\<close> addresses.
\<close>

definition generateZip :: "string \<Rightarrow> parse_result \<Rightarrow> heap \<Rightarrow> zip \<times> heap" where
  "generateZip now parseResult h =
     (let exportJson =
            \<lparr>generated_at = now,
             quiz_type = quizType parseResult,
             question_count = length (questions parseResult),
             x_questions = map exportQuestion (questions parseResult)\<rparr>;
          h' = renameBlobs (images parseResult) h
      in (\<lparr>zip_name = ''quiz_export.zip'',
           zip_entries = JsonFile ''quiz.json'' exportJson # blobFiles (images parseResult) h'\<rparr>,
          h'))"

section \<open>Properties: definitions\<close>

subsection \<open>Blocks and tags\<close>

definition isTextBlock :: "block \<Rightarrow> bool" where
  "isTextBlock element =
     (case element of PARAGRAPH t kids \<Rightarrow> True | LIST_ITEM t g kids \<Rightarrow> True | _ \<Rightarrow> False)"

definition headerText :: "quiz_type \<Rightarrow> string" where
  "headerText ty = (case ty of MCQ \<Rightarrow> ''[BEGIN#MCQ]'' | ESSAY \<Rightarrow> ''[BEGIN#ESSAY]'')"

text \<open>A block that is none of the tags: its trimmed text starts with no tag of the parser.\<close>

definition nonTag :: "block \<Rightarrow> bool" where
  "nonTag element =
     (\<not> startsWith (blockText element) ''[BEGIN#''
      \<and> \<not> startsWith (blockText element) ''[QUESTION''
      \<and> \<not> startsWith (blockText element) ''[OPTIONS]''
      \<and> \<not> startsWith (blockText element) ''[DESCRIPTIONS]'')"

subsection \<open>Numbering\<close>

text \<open>The questions are numbered 1, 2, ... in order, and each id is \<^verbatim>\<open>q\<close> and the number.\<close>

definition wellNumbered :: "question list \<Rightarrow> bool" where
  "wellNumbered qs =
     (map q_num qs = [1..<Suc (length qs)]
      \<and> map q_id qs = map (\<lambda>q. ''q'' @ show_nat (q_num q)) qs)"

text \<open>The invariant of the second loop: the current question is the next in number.\<close>

definition numbering :: "pstate \<Rightarrow> bool" where
  "numbering ps =
     (wellNumbered (closed ps)
      \<and> (case currentQuestion ps of
           None \<Rightarrow> True
         | Some q \<Rightarrow> q_num q = Suc (length (closed ps)) \<and> q_id q = ''q'' @ show_nat (q_num q)))"

subsection \<open>Kinds of validation entries\<close>

definition isCorrectCountError :: "entry \<Rightarrow> bool" where
  "isCorrectCountError e =
     (case msg e of
        NoCorrectAnswer n \<Rightarrow> True
      | MultipleCorrectAnswers n k \<Rightarrow> True
      | _ \<Rightarrow> False)"

definition isEssayOptionsError :: "entry \<Rightarrow> bool" where
  "isEssayOptionsError e = (case msg e of OptionsNotAllowedForEssay n \<Rightarrow> True | _ \<Rightarrow> False)"

definition isDuplicateError :: "entry \<Rightarrow> bool" where
  "isDuplicateError e = (case msg e of DuplicateOptions n key \<Rightarrow> True | _ \<Rightarrow> False)"

text \<open>
  What the rule on the correct answer asks of a question \<open>k\<close> of whose options are
  correct: no entry for exactly one, else the entry for none or for the number \<open>k\<close>.
\<close>

definition expectedCorrectErrors :: "question \<Rightarrow> nat \<Rightarrow> entry list" where
  "expectedCorrectErrors q k =
     (if k = 0 then [\<lparr>msg = NoCorrectAnswer (q_num q), line = q_line q\<rparr>]
      else if k = 1 then []
      else [\<lparr>msg = MultipleCorrectAnswers (q_num q) k, line = q_line q\<rparr>])"

text \<open>
  Duplicate detection as the specification words it: the first option with a value is
  kept, every later option with the same value is an error that names the value.
  \<open>earlier\<close> holds the values of the options before.
\<close>

fun duplicatesAsClaimed :: "question \<Rightarrow> string list \<Rightarrow> quiz_option list \<Rightarrow> entry list" where
  "duplicatesAsClaimed q earlier [] = []"
| "duplicatesAsClaimed q earlier (opt # rest) =
     (if normalizeOptionLine opt \<in> set earlier
      then [\<lparr>msg = DuplicateOptions (q_num q) (normalizeOptionLine opt),
              line = (if o_line opt \<noteq> 0 then o_line opt else q_line q)\<rparr>]
      else [])
     @ duplicatesAsClaimed q (earlier @ [normalizeOptionLine opt]) rest"

definition hasKey :: "quiz_option \<Rightarrow> bool" where
  "hasKey opt = (normalizeOptionLine opt \<noteq> [])"

text \<open>The warnings for the options whose HTML text is empty after trimming, by position.\<close>

definition emptyTextWarnings :: "question \<Rightarrow> entry list" where
  "emptyTextWarnings q =
     concat (map (\<lambda>k. if trim (o_text (q_options q ! k)) = []
                       then [\<lparr>msg = OptionTextEmpty (q_num q) (k + 1),
                               line = o_line (q_options q ! k)\<rparr>]
                       else [])
               [0..<length (q_options q)])"

subsection \<open>The root translation as the specification words it\<close>

text \<open>
  \<^verbatim>\<open>root(base, index)\<close> is \<^verbatim>\<open>\sqrt[index]{base}\<close> when an index argument is present and
  non-empty, else \<^verbatim>\<open>\sqrt{base}\<close>, however many arguments follow.
\<close>

definition rootAsClaimed :: "string list \<Rightarrow> string" where
  "rootAsClaimed args =
     (case args of
        base # index # rest \<Rightarrow>
          if index \<noteq> [] then bslash # ''sqrt['' @ index @ '']{'' @ base @ ''}''
          else bslash # ''sqrt{'' @ base @ ''}''
      | [base] \<Rightarrow> bslash # ''sqrt{'' @ base @ ''}''
      | [] \<Rightarrow> bslash # ''sqrt{}'')"

subsection \<open>Example documents and models\<close>

text \<open>
  A text element in one run with no formatting or in bold, a paragraph and a list item
  of plain text, and an inline image of 120 pixels width.
\<close>

definition plain :: "string \<Rightarrow> node" where
  "plain s = TEXT \<lparr>getText = s, getTextAttributeIndices = [0], attributesAt = []\<rparr>"

definition boldText :: "string \<Rightarrow> node" where
  "boldText s = TEXT \<lparr>getText = s, getTextAttributeIndices = [0],
     attributesAt = [(0, no_attrs\<lparr>BOLD := True\<rparr>)]\<rparr>"

definition para :: "string \<Rightarrow> block" where
  "para s = PARAGRAPH s [plain s]"

definition listItem :: "string \<Rightarrow> block" where
  "listItem s = LIST_ITEM s LATIN_UPPER [plain s]"

definition photoBlob :: blob where
  "photoBlob = \<lparr>getName = ''photo.png'', getContentType = ''image/png'',
     getBytes = [137, 80, 78, 71]\<rparr>"

definition photo :: inline_image where
  "photo = \<lparr>getBlob = photoBlob, getWidth = Some 120, getHeight = None\<rparr>"

definition photoTag :: "string \<Rightarrow> string" where
  \<open>photoTag filename =
     ''<img src="images/'' @ filename @ ''" width="120" style="max-width: 100%; height: auto;" />''\<close>

definition emptyStore :: rstate where
  "emptyStore = \<lparr>imageStore = [], blobs = []\<rparr>"

text \<open>The arguments of the fraction example: two texts and the symbol \<^verbatim>\<open>times\<close>.\<close>

definition fracKids :: "node list" where
  "fracKids = [plain ''100'', plain [], EQUATION_SYMBOL ''times'' []]"

text \<open>An ESSAY document with an \<^verbatim>\<open>[OPTIONS]\<close> tag in its question, and the state before that tag.\<close>

definition essayDoc :: "block list" where
  "essayDoc = [para ''[BEGIN#ESSAY]'', para ''[QUESTION#1] Q'', para ''[OPTIONS]'']"

definition essayOpenState :: pstate where
  "essayOpenState =
     \<lparr>closed = [],
      currentQuestion = Some ((createQuestionObj 1 2)\<lparr>contentHtmlParts := [''<p>Q</p>'']\<rparr>),
      state = READING_QUESTION, store = emptyStore\<rparr>"

text \<open>The ESSAY model of the validator test in Tests.js.\<close>

definition essayTestModel :: parse_result where
  "essayTestModel =
     \<lparr>quizType = Some ESSAY,
      questions =
        [(createQuestionObj 1 10)\<lparr>q_content := ''<p>Essay Question</p>'',
           hasOptionsTag := True, optionsTagLine := 12,
           q_options :=
             [\<lparr>o_id = ''opt_0'', o_text = ''<p>Not allowed</p>'',
               o_choiceText = Some ''Not allowed'', o_isCorrect = False, o_line = 13\<rparr>]\<rparr>],
      images = []\<rparr>"

text \<open>Question 3 of the validator test in Tests.js, alone in an MCQ model.\<close>

definition testQuestion3 :: question where
  "testQuestion3 =
     (createQuestionObj 3 30)\<lparr>q_content := ''<p>Multi Correct</p>'',
        hasOptionsTag := True, optionsTagLine := 31,
        q_options :=
          [\<lparr>o_id = ''opt_0'', o_text = ''<p>A</p>'', o_choiceText = Some ''A'',
            o_isCorrect = True, o_line = 32\<rparr>,
           \<lparr>o_id = ''opt_1'', o_text = ''<p>B</p>'', o_choiceText = Some ''B'',
            o_isCorrect = True, o_line = 33\<rparr>]\<rparr>"

definition multiCorrectModel :: parse_result where
  "multiCorrectModel = \<lparr>quizType = Some MCQ, questions = [testQuestion3], images = []\<rparr>"

text \<open>
  Three questions with the options marked (no, yes, yes), (no, yes, no) and (no, no): two
  correct options after one that is not, exactly one, and none.
\<close>

definition choice :: "string \<Rightarrow> bool \<Rightarrow> nat \<Rightarrow> quiz_option" where
  "choice c correct ln =
     \<lparr>o_id = ''opt'', o_text = ''<p>'' @ c @ ''</p>'', o_choiceText = Some c,
      o_isCorrect = correct, o_line = ln\<rparr>"

definition mixedCorrectModel :: parse_result where
  "mixedCorrectModel =
     \<lparr>quizType = Some MCQ,
      questions =
        [(createQuestionObj 1 2)\<lparr>q_content := ''<p>One</p>'', hasOptionsTag := True,
           optionsTagLine := 3,
           q_options := [choice ''A'' False 4, choice ''B'' True 5, choice ''C'' True 6]\<rparr>,
         (createQuestionObj 2 7)\<lparr>q_content := ''<p>Two</p>'', hasOptionsTag := True,
           optionsTagLine := 8,
           q_options := [choice ''A'' False 9, choice ''B'' True 10, choice ''C'' False 11]\<rparr>,
         (createQuestionObj 3 12)\<lparr>q_content := ''<p>Three</p>'', hasOptionsTag := True,
           optionsTagLine := 13,
           q_options := [choice ''A'' False 14, choice ''B'' False 15]\<rparr>],
      images = []\<rparr>"

text \<open>Two question tags labelled 99 and 1, and what \<open>parse\<close> returns for them.\<close>

definition labelDoc :: "block list" where
  "labelDoc = [para ''[BEGIN#MCQ]'', para ''[QUESTION#99]'', para ''[QUESTION#1]'']"

definition labelModel :: parse_result where
  "labelModel =
     \<lparr>quizType = Some MCQ, questions = [createQuestionObj 1 2, createQuestionObj 2 3],
      images = []\<rparr>"

text \<open>
  The end-to-end example of the specification, after an empty first paragraph, and what
  \<open>parse\<close> returns for it.
\<close>

definition capitalDoc :: "block list" where
  "capitalDoc = [para [], para ''[BEGIN#MCQ]'', para ''[QUESTION#1] Capital of Indonesia?'',
     para ''[OPTIONS]'', listItem ''<> Jakarta'', listItem ''Bandung'']"

definition capitalModel :: parse_result where
  "capitalModel =
     \<lparr>quizType = Some MCQ,
      questions =
        [(createQuestionObj 1 3)\<lparr>q_content := ''<p>Capital of Indonesia?</p>'',
           contentHtmlParts := [''<p>Capital of Indonesia?</p>''],
           hasOptionsTag := True, optionsTagLine := 4,
           q_options :=
             [\<lparr>o_id = ''opt_0'', o_text = ''Jakarta'', o_choiceText = Some ''Jakarta'',
               o_isCorrect = True, o_line = 5\<rparr>,
              \<lparr>o_id = ''opt_1'', o_text = ''Bandung'', o_choiceText = Some ''Bandung'',
               o_isCorrect = False, o_line = 6\<rparr>]\<rparr>],
      images = []\<rparr>"

text \<open>
  Two options with the same visible text, the first marked correct and in bold, and what
  \<open>parse\<close> returns for them.
\<close>

definition blueDoc :: "block list" where
  "blueDoc = [para ''[BEGIN#MCQ]'', para ''[QUESTION#1] Colour?'', para ''[OPTIONS]'',
     LIST_ITEM ''<> blue'' LATIN_UPPER [boldText ''<> blue''], listItem ''blue'']"

definition boldBlueOption :: quiz_option where
  "boldBlueOption =
     \<lparr>o_id = ''opt_0'', o_text = ''<b>blue</b>'', o_choiceText = Some ''blue'',
      o_isCorrect = True, o_line = 4\<rparr>"

definition blueModel :: parse_result where
  "blueModel =
     \<lparr>quizType = Some MCQ,
      questions =
        [(createQuestionObj 1 2)\<lparr>q_content := ''<p>Colour?</p>'',
           contentHtmlParts := [''<p>Colour?</p>''],
           hasOptionsTag := True, optionsTagLine := 3,
           q_options :=
             [boldBlueOption,
              \<lparr>o_id = ''opt_1'', o_text = ''blue'', o_choiceText = Some ''blue'',
               o_isCorrect = False, o_line = 5\<rparr>]\<rparr>],
      images = []\<rparr>"

text \<open>
  Two options with no visible text, the marker alone and a space alone, and what \<open>parse\<close>
  returns for them.
\<close>

definition blankOptionsDoc :: "block list" where
  "blankOptionsDoc = [para ''[BEGIN#MCQ]'', para ''[QUESTION#1] Pick'', para ''[OPTIONS]'',
     listItem ''<>'', listItem '' '']"

definition blankOptionsQuestion :: question where
  "blankOptionsQuestion =
     (createQuestionObj 1 2)\<lparr>q_content := ''<p>Pick</p>'', contentHtmlParts := [''<p>Pick</p>''],
        hasOptionsTag := True, optionsTagLine := 3,
        q_options :=
          [\<lparr>o_id = ''opt_0'', o_text = [], o_choiceText = Some [],
            o_isCorrect = True, o_line = 4\<rparr>,
           \<lparr>o_id = ''opt_1'', o_text = '' '', o_choiceText = Some [],
            o_isCorrect = False, o_line = 5\<rparr>]\<rparr>"

definition blankOptionsModel :: parse_result where
  "blankOptionsModel = \<lparr>quizType = Some MCQ, questions = [blankOptionsQuestion], images = []\<rparr>"

text \<open>
  Two options that are an image each, with no text, and what \<open>parse\<close> returns for them.
\<close>

definition imageOnlyDoc :: "block list" where
  "imageOnlyDoc = [para ''[BEGIN#MCQ]'', para ''[QUESTION#1] Pick'', para ''[OPTIONS]'',
     LIST_ITEM [] LATIN_UPPER [INLINE_IMAGE photo], LIST_ITEM [] LATIN_UPPER [INLINE_IMAGE photo]]"

definition imageOnlyQuestion :: question where
  "imageOnlyQuestion =
     (createQuestionObj 1 2)\<lparr>q_content := ''<p>Pick</p>'', contentHtmlParts := [''<p>Pick</p>''],
        hasOptionsTag := True, optionsTagLine := 3,
        q_options :=
          [\<lparr>o_id = ''opt_0'', o_text = photoTag ''q1_img_001.png'', o_choiceText = Some [],
            o_isCorrect = False, o_line = 4\<rparr>,
           \<lparr>o_id = ''opt_1'', o_text = photoTag ''q1_img_002.png'', o_choiceText = Some [],
            o_isCorrect = False, o_line = 5\<rparr>]\<rparr>"

definition imageOnlyModel :: parse_result where
  "imageOnlyModel =
     \<lparr>quizType = Some MCQ, questions = [imageOnlyQuestion],
      images = [(''q1_img_001.png'', 0), (''q1_img_002.png'', 1)]\<rparr>"

text \<open>
  A valid quiz with an image in the content of its question, what \<open>parse\<close> returns for
  it, a time of export, and a heap with a second blob that the model does not address.
\<close>

definition pictureDoc :: "block list" where
  "pictureDoc = [para ''[BEGIN#MCQ]'', para ''[QUESTION#1] Which?'',
     PARAGRAPH [] [INLINE_IMAGE photo], para ''[OPTIONS]'', listItem ''<> a'', listItem ''b'']"

definition pictureModel :: parse_result where
  "pictureModel =
     \<lparr>quizType = Some MCQ,
      questions =
        [(createQuestionObj 1 2)\<lparr>
           q_content := ''<p>Which?</p><p>'' @ photoTag ''q1_img_001.png'' @ ''</p>'',
           contentHtmlParts := [''<p>Which?</p>'', ''<p>'' @ photoTag ''q1_img_001.png'' @ ''</p>''],
           hasOptionsTag := True, optionsTagLine := 4,
           q_options :=
             [\<lparr>o_id = ''opt_0'', o_text = ''a'', o_choiceText = Some ''a'',
               o_isCorrect = True, o_line = 5\<rparr>,
              \<lparr>o_id = ''opt_1'', o_text = ''b'', o_choiceText = Some ''b'',
               o_isCorrect = False, o_line = 6\<rparr>]\<rparr>],
      images = [(''q1_img_001.png'', 0)]\<rparr>"

definition exportTime :: string where
  "exportTime = ''2026-01-10T00:00:00.000Z''"

definition twoBlobHeap :: heap where
  "twoBlobHeap = [photoBlob, \<lparr>getName = ''notes.txt'', getContentType = ''text/plain'',
     getBytes = [110, 111]\<rparr>]"

text \<open>
  A quiz with a paragraph of text and an image between the header and the first question
  tag, and a table to put in its place.
\<close>

definition introDoc :: "block list" where
  "introDoc = [para ''[BEGIN#MCQ]'', PARAGRAPH ''Intro'' [plain ''Intro'', INLINE_IMAGE photo],
     para ''[QUESTION#1] Q'', para ''[OPTIONS]'', listItem ''<> a'', listItem ''b'']"

definition introTable :: block where
  "introTable = TABLE [[[para ''x'']]]"

section \<open>Properties: lemmas\<close>

subsection \<open>Strings\<close>

lemma includes_str_mid: "includes_str (a @ p @ b) p"
proof (induction a)
  case Nil
  show ?case
  proof (cases "p @ b")
    case Nil
    then show ?thesis by simp
  next
    case (Cons x xs)
    have "startsWith (p @ b) p" by (simp add: startsWith_def)
    with Cons show ?thesis by simp
  qed
next
  case (Cons x a)
  then show ?case by simp
qed

subsection \<open>Renderer\<close>

lemma extractArgs_length: "length (fst (extractArgs kids st questionId c)) = length kids"
proof (induction kids arbitrary: st)
  case Nil
  show ?case by simp
next
  case (Cons a kids)
  obtain h st1 c1 where n: "extractNode a st questionId (c\<lparr>inEquation := True\<rparr>) = (h, st1, c1)"
    by (metis prod_cases3)
  obtain args st2 where r: "extractArgs kids st1 questionId c = (args, st2)"
    by (cases "extractArgs kids st1 questionId c")
  from Cons.IH [of st1] r have "length args = length kids"
    by simp
  with n r show ?case by simp
qed

subsection \<open>Validator\<close>

lemma validateQuestions_errors:
  "fst (validateQuestions ty qs) = concat (map (\<lambda>q. fst (validateQuestion ty q)) qs)"
  by (induction qs) (auto split: prod.splits)

lemma validateQuestions_warnings:
  "snd (validateQuestions ty qs) = concat (map (\<lambda>q. snd (validateQuestion ty q)) qs)"
  by (induction qs) (auto split: prod.splits)

lemma validate_errors:
  "quizType pr = Some ty \<Longrightarrow> questions pr \<noteq> [] \<Longrightarrow>
   errors (validate pr) = concat (map (\<lambda>q. fst (validateQuestion ty q)) (questions pr))"
  by (simp add: validate_def validateQuestions_errors [symmetric] split: prod.splits)

lemma validate_warnings:
  "quizType pr = Some ty \<Longrightarrow> questions pr \<noteq> [] \<Longrightarrow>
   warnings (validate pr) = concat (map (\<lambda>q. snd (validateQuestion ty q)) (questions pr))"
  by (simp add: validate_def validateQuestions_warnings [symmetric] split: prod.splits)

lemma duplicateErrors_kind:
  "e \<in> set (duplicateErrors q seen idx opts) \<Longrightarrow>
   \<exists>key. msg e = DuplicateOptions (q_num q) key \<and> key \<noteq> []"
  by (induction q seen idx opts rule: duplicateErrors.induct) (auto simp: Let_def split: if_splits)

lemma filter_correct_duplicateErrors:
  "filter isCorrectCountError (duplicateErrors q seen idx opts) = []"
  by (auto simp: filter_empty_conv isCorrectCountError_def dest!: duplicateErrors_kind)

lemma filter_correct_question:
  "filter isCorrectCountError (fst (validateQuestion MCQ q))
     = expectedCorrectErrors q (length (filter o_isCorrect (q_options q)))"
  by (cases "filter o_isCorrect (q_options q)")
    (simp_all add: validateQuestion_def filter_correct_duplicateErrors contentErrors_def
      missingOptionsErrors_def optionCountErrors_def correctAnswerErrors_def correctCount_def
      expectedCorrectErrors_def isCorrectCountError_def)

subsection \<open>Trimming\<close>

lemma dropWhile_rev_take: "\<exists>n. rev (dropWhile P (rev u)) = take n u"
proof -
  have "dropWhile P (rev u) = drop (length (takeWhile P (rev u))) (rev u)"
    by (simp add: dropWhile_eq_drop)
  also have "\<dots> = rev (take (length u - length (takeWhile P (rev u))) u)"
    by (simp add: drop_rev)
  finally show ?thesis by auto
qed

lemma dropWhile_fixed: "xs = [] \<or> \<not> P (hd xs) \<Longrightarrow> dropWhile P xs = xs"
  by (cases xs) auto

lemma trim_no_leading: "dropWhile is_space (trim s) = trim s"
proof -
  let ?u = "dropWhile is_space s"
  obtain n where n: "trim s = take n ?u"
    using dropWhile_rev_take [of is_space ?u] by (auto simp: trim_def)
  have "trim s = [] \<or> \<not> is_space (hd (trim s))"
  proof (cases "trim s = []")
    case False
    with n have "?u \<noteq> []" and "hd (trim s) = hd ?u"
      by (auto simp: hd_take)
    then show ?thesis
      using hd_dropWhile [of is_space s] by simp
  qed simp
  then show ?thesis by (rule dropWhile_fixed)
qed

lemma trim_idem [simp]: "trim (trim s) = trim s"
proof -
  have "rev (trim s) = dropWhile is_space (rev (dropWhile is_space s))"
    by (simp add: trim_def)
  then have "dropWhile is_space (rev (trim s)) = rev (trim s)"
    by (simp add: dropWhile_idem)
  then show ?thesis
    by (simp add: trim_def [of "trim s"] trim_no_leading)
qed

lemma trim_Nil [simp]: "trim [] = []"
  by (simp add: trim_def)

lemma blockText_trim [simp]: "trim (blockText b) = blockText b"
  by (cases b) (simp_all add: blockText_def)

lemma startsWith_append: "startsWith t p \<Longrightarrow> \<exists>r. t = p @ r"
  by (metis append_take_drop_id startsWith_def)

subsection \<open>Header scan and main loop\<close>

lemma headerOf_Some:
  "headerOf (trim t) k = Inr (Some (ty, i)) \<Longrightarrow> i = k \<and> trim t = headerText ty"
  by (auto simp: headerOf_def parseBeginTag_def headerText_def Let_def
      split: option.splits if_splits)

lemma scanHeader_Some:
  "scanHeader bs k = Inr (Some (ty, i)) \<Longrightarrow>
     k \<le> i \<and> i < k + length bs \<and> isTextBlock (bs ! (i - k))
     \<and> blockText (bs ! (i - k)) = headerText ty
     \<and> (\<forall>j < i - k. isTextBlock (bs ! j) \<and> blockText (bs ! j) = [])"
proof (induction bs k rule: scanHeader.induct)
  case (2 tx kids rest i0)
  show ?case
  proof (cases "trim tx = []")
    case True
    with 2 have ih: "i0 + 1 \<le> i \<and> i < i0 + 1 + length rest \<and> isTextBlock (rest ! (i - (i0 + 1)))
       \<and> blockText (rest ! (i - (i0 + 1))) = headerText ty
       \<and> (\<forall>j < i - (i0 + 1). isTextBlock (rest ! j) \<and> blockText (rest ! j) = [])"
      by simp
    then have e: "i - i0 = Suc (i - (i0 + 1))" by arith
    from ih True show ?thesis
      by (auto simp: e isTextBlock_def blockText_def less_Suc_eq_0_disj)
  next
    case False
    with 2(2) have "i = i0 \<and> trim tx = headerText ty"
      by (auto dest: headerOf_Some)
    then show ?thesis
      by (simp add: isTextBlock_def blockText_def)
  qed
next
  case (3 tx g kids rest i0)
  show ?case
  proof (cases "trim tx = []")
    case True
    with 3 have ih: "i0 + 1 \<le> i \<and> i < i0 + 1 + length rest \<and> isTextBlock (rest ! (i - (i0 + 1)))
       \<and> blockText (rest ! (i - (i0 + 1))) = headerText ty
       \<and> (\<forall>j < i - (i0 + 1). isTextBlock (rest ! j) \<and> blockText (rest ! j) = [])"
      by simp
    then have e: "i - i0 = Suc (i - (i0 + 1))" by arith
    from ih True show ?thesis
      by (auto simp: e isTextBlock_def blockText_def less_Suc_eq_0_disj)
  next
    case False
    with 3(2) have "i = i0 \<and> trim tx = headerText ty"
      by (auto dest: headerOf_Some)
    then show ?thesis
      by (simp add: isTextBlock_def blockText_def)
  qed
qed simp_all

lemma scanHeader_update:
  "scanHeader bs k = Inr (Some (ty, b)) \<Longrightarrow> b - k < j \<Longrightarrow>
   scanHeader (bs[j := x]) k = Inr (Some (ty, b))"
proof (induction bs k arbitrary: j rule: scanHeader.induct)
  case (2 tx kids rest i0)
  from 2(3) obtain j' where j: "j = Suc j'" by (cases j) auto
  show ?case
  proof (cases "trim tx = []")
    case True
    with 2(2) have s: "scanHeader rest (i0 + 1) = Inr (Some (ty, b))" by simp
    from scanHeader_Some [OF s] 2(3) j have "b - (i0 + 1) < j'" by arith
    from 2(1) [OF True s this] True j show ?thesis by simp
  next
    case False
    with 2(2) j show ?thesis by simp
  qed
next
  case (3 tx g kids rest i0)
  from 3(3) obtain j' where j: "j = Suc j'" by (cases j) auto
  show ?case
  proof (cases "trim tx = []")
    case True
    with 3(2) have s: "scanHeader rest (i0 + 1) = Inr (Some (ty, b))" by simp
    from scanHeader_Some [OF s] 3(3) j have "b - (i0 + 1) < j'" by arith
    from 3(1) [OF True s this] True j show ?thesis by simp
  next
    case False
    with 3(2) j show ?thesis by simp
  qed
qed simp_all

lemma mainLoop_append:
  "mainLoop ty b k (xs @ ys) ps =
     (case mainLoop ty b k xs ps of
        Inl e \<Rightarrow> Inl e
      | Inr ps' \<Rightarrow> mainLoop ty b (k + length xs) ys ps')"
  by (induction xs arbitrary: k ps) (auto split: sum.splits)

lemma step_no_begin:
  "step ty bl i el ps = Inr ps' \<Longrightarrow> \<not> startsWith (blockText el) ''[BEGIN#''"
  by (auto simp: step_def Let_def startsWith_def split: if_splits)

lemma mainLoop_no_begin:
  "mainLoop ty b k bs ps = Inr ps' \<Longrightarrow> j < length bs \<Longrightarrow> k + j \<noteq> b \<Longrightarrow>
   \<not> startsWith (blockText (bs ! j)) ''[BEGIN#''"
proof (induction bs arbitrary: k ps j)
  case Nil
  then show ?case by simp
next
  case (Cons el rest)
  show ?case
  proof (cases j)
    case 0
    with Cons.prems show ?thesis
      by (auto split: if_splits sum.splits dest: step_no_begin)
  next
    case (Suc j')
    with Cons.prems Cons.IH [of "k + 1" _ j'] show ?thesis
      by (auto split: if_splits sum.splits)
  qed
qed

subsection \<open>The OPTIONS tag in an ESSAY document\<close>

lemma not_question_tag:
  "\<not> startsWith (blockText el) ''[QUESTION'' \<Longrightarrow> parseQuestionTag (blockText el) = Inr None"
  by (simp add: parseQuestionTag_def)

lemma options_not_other:
  assumes "startsWith t ''[OPTIONS]''"
  shows "\<not> startsWith t ''[BEGIN#''" and "\<not> startsWith t ''[QUESTION''"
proof -
  from startsWith_append [OF assms] obtain r where "t = ''[OPTIONS]'' @ r" ..
  then show "\<not> startsWith t ''[BEGIN#''" and "\<not> startsWith t ''[QUESTION''"
    by (simp_all add: startsWith_def)
qed

lemma step_options_essay:
  assumes "startsWith (blockText el) ''[OPTIONS]''"
  shows "step ESSAY bl i el ps =
           (case currentQuestion ps of
              None \<Rightarrow> Inl (InvalidOptionsPlacement (i + 1))
            | Some q \<Rightarrow> Inl (InvalidOptionsForEssay (i + 1)))"
  using assms options_not_other [OF assms]
  by (simp add: step_def not_question_tag optionsTag_def split: option.splits)

lemma mainLoop_options_essay:
  "j < length bs \<Longrightarrow> k + j \<noteq> b \<Longrightarrow> startsWith (blockText (bs ! j)) ''[OPTIONS]'' \<Longrightarrow>
   \<exists>e. mainLoop ESSAY b k bs ps = Inl e"
proof (induction bs arbitrary: k ps j)
  case Nil
  then show ?case by simp
next
  case (Cons el rest)
  show ?case
  proof (cases j)
    case 0
    with Cons.prems show ?thesis
      by (simp add: step_options_essay split: option.splits)
  next
    case (Suc j')
    with Cons.prems Cons.IH [of j' "k + 1"] show ?thesis
      by (auto split: sum.splits)
  qed
qed

lemma filter_essay_question:
  "filter isEssayOptionsError (fst (validateQuestion ESSAY q)) = essayErrors q"
  by (simp add: validateQuestion_def contentErrors_def essayErrors_def isEssayOptionsError_def)

lemma parse_rejects_options_under_essay:
  assumes "scanHeader body 0 = Inr (Some (ESSAY, b))" and "j < length body" and "j \<noteq> b"
    and "startsWith (blockText (body ! j)) ''[OPTIONS]''"
  shows "\<exists>e. parse body = Inl e"
proof -
  from mainLoop_options_essay [of j body 0 b initial] assms
  obtain e where "mainLoop ESSAY b 0 body initial = Inl e" by auto
  with assms(1) show ?thesis by (simp add: parse_def)
qed

lemma parse_rejects_options_in_open_question:
  assumes "scanHeader body 0 = Inr (Some (ESSAY, b))" and "j < length body" and "j \<noteq> b"
    and "startsWith (blockText (body ! j)) ''[OPTIONS]''"
    and "mainLoop ESSAY b 0 (take j body) initial = Inr ps" and "currentQuestion ps \<noteq> None"
  shows "parse body = Inl (InvalidOptionsForEssay (j + 1))"
proof -
  have "body = take j body @ body ! j # drop (Suc j) body"
    using assms(2) by (simp add: id_take_nth_drop)
  then have "mainLoop ESSAY b 0 body initial
      = mainLoop ESSAY b 0 (take j body @ body ! j # drop (Suc j) body) initial"
    by simp
  also have "\<dots> = Inl (InvalidOptionsForEssay (j + 1))"
    using assms by (auto simp: mainLoop_append step_options_essay)
  finally show ?thesis
    using assms(1) by (simp add: parse_def)
qed

subsection \<open>Numbering\<close>

lemma wellNumbered_snoc:
  "wellNumbered qs \<Longrightarrow> q_num q = Suc (length qs) \<Longrightarrow> q_id q = ''q'' @ show_nat (q_num q) \<Longrightarrow>
   wellNumbered (qs @ [q])"
  by (simp add: wellNumbered_def)

lemma closeLists_num [simp]:
  "q_num (closeLists q) = q_num q" "q_id (closeLists q) = q_id q"
  by (simp_all add: closeLists_def closeQuestionListIfOpen_def closeDescriptionListIfOpen_def)

lemma readQuestion_num:
  "readQuestion el q st = (q', st') \<Longrightarrow> q_num q' = q_num q \<and> q_id q' = q_id q"
  by (auto simp: readQuestion_def Let_def pushContent_def enterQuestionList_def
      closeQuestionListIfOpen_def split: block.splits prod.splits if_splits)

lemma readDescriptions_num:
  "readDescriptions el q st = (q', st') \<Longrightarrow> q_num q' = q_num q \<and> q_id q' = q_id q"
  by (auto simp: readDescriptions_def Let_def pushDescription_def enterDescriptionList_def
      closeDescriptionListIfOpen_def split: block.splits prod.splits if_splits)

lemma readOptions_num:
  "readOptions ln el q st = (q', st') \<Longrightarrow> q_num q' = q_num q \<and> q_id q' = q_id q"
  by (auto simp: readOptions_def Let_def split: block.splits prod.splits if_splits)

lemma readContent_numbering: "numbering ps \<Longrightarrow> numbering (readContent ln el ps)"
  by (auto simp: numbering_def readContent_def
      split: option.splits pmode.splits prod.splits
      dest: readQuestion_num readDescriptions_num readOptions_num)

lemma startQuestion_num:
  "\<exists>q. currentQuestion (startQuestion questionTag ln ps) = Some q
       \<and> q_num q = 1 + length (closed (startQuestion questionTag ln ps))
       \<and> q_id q = ''q'' @ show_nat (q_num q)"
  by (simp add: startQuestion_def Let_def createQuestionObj_def)

lemma startQuestion_numbering: "numbering ps \<Longrightarrow> numbering (startQuestion questionTag ln ps)"
  by (auto simp: numbering_def startQuestion_def Let_def createQuestionObj_def
      intro!: wellNumbered_snoc split: option.splits)

lemma optionsTag_numbering: "optionsTag ty ln ps = Inr ps' \<Longrightarrow> numbering ps \<Longrightarrow> numbering ps'"
  by (auto simp: numbering_def optionsTag_def split: option.splits if_splits)

lemma descriptionsTag_numbering:
  "descriptionsTag ty ln ps = Inr ps' \<Longrightarrow> numbering ps \<Longrightarrow> numbering ps'"
  by (auto simp: numbering_def descriptionsTag_def split: option.splits if_splits)

lemma step_numbering: "step ty bl i el ps = Inr ps' \<Longrightarrow> numbering ps \<Longrightarrow> numbering ps'"
  by (auto simp: step_def Let_def split: if_splits sum.splits option.splits
      intro: startQuestion_numbering optionsTag_numbering descriptionsTag_numbering
        readContent_numbering)

lemma mainLoop_numbering:
  "mainLoop ty b k bs ps = Inr ps' \<Longrightarrow> numbering ps \<Longrightarrow> numbering ps'"
  by (induction bs arbitrary: k ps) (auto split: if_splits sum.splits dest: step_numbering)

lemma finish_numbering:
  "numbering ps \<Longrightarrow> wellNumbered (questions (fst (finish ty ps)))"
proof -
  assume n: "numbering ps"
  have f: "wellNumbered (map finalizeQuestion qs)" if "wellNumbered qs" for qs
    using that by (simp add: wellNumbered_def finalizeQuestion_def Let_def comp_def)
  show ?thesis
  proof (cases "currentQuestion ps")
    case None
    with n show ?thesis by (simp add: finish_def numbering_def f)
  next
    case (Some q)
    with n have "wellNumbered (closed ps @ [closeLists q])"
      by (auto simp: numbering_def intro: wellNumbered_snoc)
    with Some show ?thesis by (simp add: finish_def f del: map_append)
  qed
qed

subsection \<open>Blocks before the first question\<close>

lemma step_nonTag:
  "nonTag el \<Longrightarrow> currentQuestion ps = None \<Longrightarrow> step ty bl i el ps = Inr ps"
  by (simp add: nonTag_def step_def Let_def not_question_tag readContent_def)

lemma step_no_question:
  "\<not> startsWith (blockText el) ''[QUESTION'' \<Longrightarrow> currentQuestion ps = None \<Longrightarrow>
   step ty bl i el ps = Inr ps' \<Longrightarrow> ps' = ps"
  by (auto simp: step_def Let_def not_question_tag readContent_def optionsTag_def
      descriptionsTag_def split: if_splits)

lemma mainLoop_no_question:
  "currentQuestion ps = None \<Longrightarrow>
   (\<forall>j < length xs. \<not> startsWith (blockText (xs ! j)) ''[QUESTION'') \<Longrightarrow>
   mainLoop ty b k xs ps = Inr ps' \<Longrightarrow> ps' = ps"
proof (induction xs arbitrary: k)
  case Nil
  then show ?case by simp
next
  case (Cons el rest)
  from Cons.prems(2) have h: "\<not> startsWith (blockText el) ''[QUESTION''"
    and t: "\<forall>j < length rest. \<not> startsWith (blockText (rest ! j)) ''[QUESTION''"
    by auto
  show ?case
  proof (cases "k = b")
    case True
    with Cons.prems(3) have "mainLoop ty b (k + 1) rest ps = Inr ps'" by simp
    from Cons.IH [OF Cons.prems(1) t this] show ?thesis .
  next
    case False
    with Cons.prems(3) obtain ps1 where s: "step ty (b + 1) k el ps = Inr ps1"
      and m: "mainLoop ty b (k + 1) rest ps1 = Inr ps'"
      by (auto split: sum.splits)
    from step_no_question [OF h Cons.prems(1) s] have "ps1 = ps" .
    with m Cons.IH [OF Cons.prems(1) t] show ?thesis by simp
  qed
qed

subsection \<open>Exporter\<close>

lemma setName_bytes: "map getBytes (setName a name h) = map getBytes h"
  by (simp add: setName_def map_update list_update_same_conv)

lemma setName_contentType: "map getContentType (setName a name h) = map getContentType h"
  by (simp add: setName_def map_update list_update_same_conv)

lemma setName_length [simp]: "length (setName a name h) = length h"
  by (simp add: setName_def)

lemma setName_other: "k \<noteq> a \<Longrightarrow> setName a name h ! k = h ! k"
  by (simp add: setName_def)

lemma setName_same: "a < length h \<Longrightarrow> getName (setName a name h ! a) = name"
  by (simp add: setName_def)

lemma renameBlobs_bytes: "map getBytes (renameBlobs entries h) = map getBytes h"
  by (induction entries h rule: renameBlobs.induct) (simp_all add: setName_bytes)

lemma renameBlobs_contentType: "map getContentType (renameBlobs entries h) = map getContentType h"
  by (induction entries h rule: renameBlobs.induct) (simp_all add: setName_contentType)

lemma renameBlobs_length [simp]: "length (renameBlobs entries h) = length h"
  by (induction entries h rule: renameBlobs.induct) simp_all

lemma renameBlobs_other: "k \<notin> snd ` set entries \<Longrightarrow> renameBlobs entries h ! k = h ! k"
  by (induction entries h rule: renameBlobs.induct) (auto simp: setName_other)

lemma renameBlobs_name:
  "distinct (map snd entries) \<Longrightarrow> (filename, a) \<in> set entries \<Longrightarrow> a < length h \<Longrightarrow>
   getName (renameBlobs entries h ! a) = ''images/'' @ filename"
proof (induction entries h rule: renameBlobs.induct)
  case (1 h)
  then show ?case by simp
next
  case (2 f a' rest h)
  show ?case
  proof (cases "(filename, a) = (f, a')")
    case True
    with 2(2) have "a \<notin> snd ` set rest" by auto
    from renameBlobs_other [OF this] True 2(4) show ?thesis
      by (simp add: setName_same)
  next
    case False
    with 2 show ?thesis by auto
  qed
qed

subsection \<open>Duplicate options and empty options\<close>

lemma duplicateErrors_claimed:
  "dom seen = set earlier \<Longrightarrow> \<forall>opt \<in> set opts. normalizeOptionLine opt \<noteq> ''__proto__'' \<Longrightarrow>
   duplicateErrors q seen idx opts = duplicatesAsClaimed q earlier (filter hasKey opts)"
proof (induction opts arbitrary: seen idx earlier)
  case Nil
  show ?case by simp
next
  case (Cons opt rest)
  let ?key = "normalizeOptionLine opt"
  from Cons.prems(2) have r: "\<forall>opt \<in> set rest. normalizeOptionLine opt \<noteq> ''__proto__''"
    and p: "?key \<noteq> ''__proto__''"
    by auto
  show ?case
  proof (cases "?key = []")
    case True
    with Cons.IH [OF Cons.prems(1) r] show ?thesis
      by (simp add: hasKey_def Let_def)
  next
    case False
    show ?thesis
    proof (cases "seen ?key")
      case None
      with Cons.prems(1) have n: "?key \<notin> set earlier" by auto
      have "dom (setOwn seen ?key idx) = set (earlier @ [?key])"
        using Cons.prems(1) p by (auto simp: setOwn_def)
      from Cons.IH [OF this r] None False n show ?thesis
        by (simp add: hasKey_def Let_def)
    next
      case (Some k)
      with Cons.prems(1) have n: "?key \<in> set earlier" by auto
      then have "dom seen = set (earlier @ [?key])"
        using Cons.prems(1) by auto
      from Cons.IH [OF this r] Some False n show ?thesis
        by (simp add: hasKey_def Let_def)
    qed
  qed
qed

text \<open>
  The value \<^verbatim>\<open>__proto__\<close> is never recorded as seen: options that repeat it give no
  duplicate error.
\<close>

lemma proto_value_not_recorded:
  "normalizeOptionLine opt = ''__proto__'' \<Longrightarrow>
   duplicateErrors q Map.empty idx [opt, opt] = []"
  by (simp add: setOwn_def)

lemma filter_duplicate_question:
  "filter isDuplicateError (fst (validateQuestion MCQ q)) = duplicateErrors q Map.empty 0 (q_options q)"
proof -
  have "filter isDuplicateError (duplicateErrors q seen idx opts) = duplicateErrors q seen idx opts"
    for seen idx opts
    by (auto simp: filter_id_conv isDuplicateError_def dest!: duplicateErrors_kind)
  then show ?thesis
    by (simp add: validateQuestion_def contentErrors_def missingOptionsErrors_def
        optionCountErrors_def correctAnswerErrors_def isDuplicateError_def)
qed

lemma emptyOptionWarnings_index:
  "emptyOptionWarnings q idx opts =
     concat (map (\<lambda>k. if trim (o_text (opts ! k)) = []
                       then [\<lparr>msg = OptionTextEmpty (q_num q) (idx + k + 1), line = o_line (opts ! k)\<rparr>]
                       else [])
               [0..<length opts])"
proof (induction opts arbitrary: idx)
  case Nil
  show ?case by simp
next
  case (Cons opt rest)
  have u: "[0..<length (opt # rest)] = 0 # map Suc [0..<length rest]"
    by (simp add: upt_conv_Cons map_Suc_upt del: upt_Suc)
  show ?case
    unfolding u by (simp add: Cons.IH [of "Suc idx"] comp_def cong: if_cong)
qed

section \<open>Properties of the renderer\<close>

text \<open>
  C7. An equation function whose code is \<^verbatim>\<open>frac\<close> renders as \<^verbatim>\<open>\frac{numerator}{denominator}\<close>:
  the numerator is the rendering of the first argument (empty when there is none), the
  denominator is the concatenation of the renderings of all the remaining arguments. The
  arguments are rendered in order, in equation context.
\<close>

theorem frac_render:
  assumes "normCode code = ''frac''"
  shows "extractNode (EQUATION_FUNCTION code kids) st questionId c =
     (case extractArgs kids st questionId c of
        (args, st') \<Rightarrow>
          (bslash # ''frac{'' @ (case args of [] \<Rightarrow> [] | numerator # rest \<Rightarrow> numerator)
             @ ''}{'' @ concat (tl args) @ ''}'', st', c))"
  using assms
  by (simp add: equationFunction_def arg0_or_empty_def join_def drop_Suc split: prod.splits)

text \<open>
  The example of the specification: the arguments \<^verbatim>\<open>100\<close>, the empty string and
  \<^verbatim>\<open>\times\<close> render as \<^verbatim>\<open>\frac{100}{\times}\<close>.
\<close>

theorem frac_render_witness:
  "normCode ''frac'' = ''frac''
   \<and> fst (extractArgs fracKids emptyStore ''q1'' no_ctx) = [''100'', [], bslash # ''times'']
   \<and> fst (extractNode (EQUATION_FUNCTION ''frac'' fracKids) emptyStore ''q1'' no_ctx)
       = bslash # ''frac{100}{'' @ bslash # ''times}''"
proof -
  have a: "normCode ''frac'' = ''frac''"
    by code_simp
  have b: "extractArgs fracKids emptyStore ''q1'' no_ctx
             = ([''100'', [], bslash # ''times''], emptyStore)"
    by code_simp
  from frac_render [OF a, of fracKids emptyStore "''q1''" no_ctx] a b
  show ?thesis by simp
qed

text \<open>
  C4, as claimed: \<^verbatim>\<open>root\<close> gives \<^verbatim>\<open>\sqrt[index]{base}\<close> whenever an index argument is present
  and non-empty, however many arguments the node has. With the three arguments \<^verbatim>\<open>x\<close>,
  \<^verbatim>\<open>3\<close>, \<^verbatim>\<open>y\<close> the claim gives \<^verbatim>\<open>\sqrt[3]{x}\<close> and the renderer gives \<^verbatim>\<open>\sqrt{x}\<close>.
\<close>

theorem root_three_arguments_counterexample:
  "fst (extractArgs [plain ''x'', plain ''3'', plain ''y''] emptyStore ''q1'' no_ctx)
     = [''x'', ''3'', ''y'']
   \<and> fst (extractNode (EQUATION_FUNCTION ''root'' [plain ''x'', plain ''3'', plain ''y''])
          emptyStore ''q1'' no_ctx) = bslash # ''sqrt{x}''
   \<and> rootAsClaimed [''x'', ''3'', ''y''] = bslash # ''sqrt[3]{x}''"
  by code_simp

text \<open>
  C4, amended. An equation function whose code is \<^verbatim>\<open>root\<close> and that has at least one
  argument renders as \<^verbatim>\<open>\sqrt[index]{base}\<close> when it has exactly two arguments and the
  second renders non-empty, and as \<^verbatim>\<open>\sqrt{base}\<close> in every other case; the base is the
  first argument, the index the second.
\<close>

theorem root_render:
  assumes "normCode code = ''root''" and "kids \<noteq> []"
  shows "extractNode (EQUATION_FUNCTION code kids) st questionId c =
     (case extractArgs kids st questionId c of
        (args, st') \<Rightarrow>
          (if length kids = 2 \<and> args ! 1 \<noteq> []
           then bslash # ''sqrt['' @ args ! 1 @ '']{'' @ args ! 0 @ ''}''
           else bslash # ''sqrt{'' @ args ! 0 @ ''}'', st', c))"
proof -
  obtain args st' where e: "extractArgs kids st questionId c = (args, st')"
    by (cases "extractArgs kids st questionId c")
  with extractArgs_length [of kids st questionId c] have l: "length args = length kids"
    by simp
  with assms(2) obtain a rest where "args = a # rest"
    by (cases args) auto
  with e l assms(1) show ?thesis
    by (simp add: equationFunction_def arg0_template_def)
qed

theorem root_render_witness:
  "normCode ''root'' = ''root'' \<and> [plain ''x'', plain ''3''] \<noteq> []
   \<and> fst (extractNode (EQUATION_FUNCTION ''root'' [plain ''x'', plain ''3''])
        emptyStore ''q1'' no_ctx) = bslash # ''sqrt[3]{x}''"
proof -
  have a: "normCode ''root'' = ''root''"
    by code_simp
  have b: "extractArgs [plain ''x'', plain ''3''] emptyStore ''q1'' no_ctx
             = ([''x'', ''3''], emptyStore)"
    by code_simp
  from root_render [OF a, of "[plain ''x'', plain ''3'']" emptyStore "''q1''" no_ctx] a b
  show ?thesis by simp
qed

section \<open>Properties of the parser\<close>

text \<open>
  C8. When \<open>parse\<close> returns a model, the document has a header block: a paragraph or a
  list item whose trimmed text is exactly \<^verbatim>\<open>[BEGIN#MCQ]\<close> or \<^verbatim>\<open>[BEGIN#ESSAY]\<close> (the quiz
  type of the model); every block before it is a paragraph or a list item with empty
  trimmed text; and no other block has a trimmed text that begins with \<^verbatim>\<open>[BEGIN#\<close>. In
  every other case \<open>parse\<close> raises an error.
\<close>

theorem header_required:
  assumes "parse body = Inr (r, h)"
  shows "\<exists>i ty. i < length body \<and> quizType r = Some ty
           \<and> isTextBlock (body ! i) \<and> blockText (body ! i) = headerText ty
           \<and> (\<forall>j < i. isTextBlock (body ! j) \<and> blockText (body ! j) = [])
           \<and> (\<forall>j < length body. j \<noteq> i \<longrightarrow> \<not> startsWith (blockText (body ! j)) ''[BEGIN#'')"
proof -
  from assms obtain ty b where s: "scanHeader body 0 = Inr (Some (ty, b))"
    by (auto simp: parse_def split: sum.splits option.splits)
  with assms obtain ps where m: "mainLoop ty b 0 body initial = Inr ps" and r: "finish ty ps = (r, h)"
    by (auto simp: parse_def split: sum.splits)
  from r have "quizType r = Some ty"
    by (auto simp: finish_def Let_def)
  moreover from mainLoop_no_begin [OF m]
  have "\<forall>j < length body. j \<noteq> b \<longrightarrow> \<not> startsWith (blockText (body ! j)) ''[BEGIN#''"
    by simp
  ultimately show ?thesis
    using scanHeader_Some [OF s] by auto
qed

text \<open>
  The end-to-end example of the specification parses, with its header in the second
  block; a table before the header, a header with trailing text and a second header fail.
\<close>

theorem header_required_witness:
  "parse capitalDoc = Inr (capitalModel, [])
   \<and> (\<exists>i ty. i < length capitalDoc \<and> quizType capitalModel = Some ty
           \<and> isTextBlock (capitalDoc ! i) \<and> blockText (capitalDoc ! i) = headerText ty
           \<and> (\<forall>j < i. isTextBlock (capitalDoc ! j) \<and> blockText (capitalDoc ! j) = [])
           \<and> (\<forall>j < length capitalDoc. j \<noteq> i
                 \<longrightarrow> \<not> startsWith (blockText (capitalDoc ! j)) ''[BEGIN#''))
   \<and> parse (introTable # capitalDoc) = Inl MissingHeader
   \<and> parse [para ''[BEGIN#MCQ] quiz''] = Inl (MissingHeaderFound ''[BEGIN#MCQ] quiz'')
   \<and> parse [para ''[BEGIN#MCQ]'', para ''[BEGIN#ESSAY]''] = Inl (InvalidBeginPlacement 2 MCQ 1)"
proof -
  have p: "parse capitalDoc = Inr (capitalModel, [])"
    by code_simp
  have a: "parse (introTable # capitalDoc) = Inl MissingHeader"
    by code_simp
  have b: "parse [para ''[BEGIN#MCQ] quiz''] = Inl (MissingHeaderFound ''[BEGIN#MCQ] quiz'')"
    by code_simp
  have c: "parse [para ''[BEGIN#MCQ]'', para ''[BEGIN#ESSAY]''] = Inl (InvalidBeginPlacement 2 MCQ 1)"
    by code_simp
  from header_required [OF p] p a b c show ?thesis
    by blast
qed

text \<open>
  C3. When \<open>parse\<close> returns a model, its questions are numbered 1, 2, ... in document
  order and the id of each is \<^verbatim>\<open>q\<close> followed by its number; the number a question tag
  gives is 1 plus the number of questions closed when the question starts. The label of
  the tag has no part in it.
\<close>

theorem question_numbers:
  assumes "parse body = Inr (r, h)"
  shows "map q_num (questions r) = [1..<Suc (length (questions r))]
     \<and> map q_id (questions r) = map (\<lambda>q. ''q'' @ show_nat (q_num q)) (questions r)
     \<and> (\<exists>q. currentQuestion (startQuestion questionTag ln ps) = Some q
            \<and> q_num q = 1 + length (closed (startQuestion questionTag ln ps)))
     \<and> startQuestion (questionTag\<lparr>labelNumber := label\<rparr>) ln ps = startQuestion questionTag ln ps"
proof -
  from assms obtain ty b where s: "scanHeader body 0 = Inr (Some (ty, b))"
    by (auto simp: parse_def split: sum.splits option.splits)
  with assms obtain ps' where m: "mainLoop ty b 0 body initial = Inr ps'"
    and r: "finish ty ps' = (r, h)"
    by (auto simp: parse_def split: sum.splits)
  have "numbering initial"
    by (simp add: numbering_def initial_def wellNumbered_def)
  from finish_numbering [OF mainLoop_numbering [OF m this], of ty] r
  have "wellNumbered (questions r)" by simp
  moreover have "startQuestion (questionTag\<lparr>labelNumber := label\<rparr>) ln ps
      = startQuestion questionTag ln ps"
    by (simp add: startQuestion_def cong: if_cong)
  ultimately show ?thesis
    using startQuestion_num [of questionTag ln ps] by (auto simp: wellNumbered_def)
qed

text \<open>
  The example of the specification: \<^verbatim>\<open>[QUESTION#99]\<close> followed by \<^verbatim>\<open>[QUESTION#1]\<close> gives
  the numbers 1 and 2 and the ids \<^verbatim>\<open>q1\<close> and \<^verbatim>\<open>q2\<close>; the tag labelled 99 starts the
  question that the same tag with the label 1 starts.
\<close>

theorem question_numbers_witness:
  "parse labelDoc = Inr (labelModel, [])
   \<and> parseQuestionTag ''[QUESTION#99]'' = Inr (Some \<lparr>inlineText = [], labelNumber = Some 99\<rparr>)
   \<and> map q_num (questions labelModel) = [1, 2]
   \<and> map q_id (questions labelModel) = [''q1'', ''q2'']
   \<and> startQuestion \<lparr>inlineText = [], labelNumber = Some 1\<rparr> 2 initial
       = startQuestion \<lparr>inlineText = [], labelNumber = Some 99\<rparr> 2 initial"
proof -
  have p: "parse labelDoc = Inr (labelModel, [])"
    by code_simp
  have t: "parseQuestionTag ''[QUESTION#99]'' = Inr (Some \<lparr>inlineText = [], labelNumber = Some 99\<rparr>)"
    by code_simp
  have l: "length (questions labelModel) = 2"
    by (simp add: labelModel_def)
  have s: "show_nat 1 = ''1''" "show_nat 2 = ''2''"
    by code_simp+
  have u: "[1..<Suc 2] = [1, 2]"
    by code_simp
  note q = question_numbers [OF p, of "\<lparr>inlineText = [], labelNumber = Some 99\<rparr>" 2 initial "Some 1"]
  from q have "map q_num (questions labelModel) = [1..<Suc (length (questions labelModel))]"
    and i: "map q_id (questions labelModel) = map (\<lambda>q. ''q'' @ show_nat (q_num q)) (questions labelModel)"
    by blast+
  with l u have n: "map q_num (questions labelModel) = [1, 2]"
    by simp
  then have "map (\<lambda>q. ''q'' @ show_nat (q_num q)) (questions labelModel) = [''q1'', ''q2'']"
    using s l by (cases "questions labelModel"; cases "tl (questions labelModel)") auto
  with i have d: "map q_id (questions labelModel) = [''q1'', ''q2'']"
    by (rule trans)
  from q have "startQuestion \<lparr>inlineText = [], labelNumber = Some 1\<rparr> 2 initial
       = startQuestion \<lparr>inlineText = [], labelNumber = Some 99\<rparr> 2 initial"
    by simp
  with n d p t show ?thesis by blast
qed

text \<open>
  C10. In a document with a header, a block that is no tag and that stands after the
  header and before the first question tag is dropped: the outcome of \<open>parse\<close> (the model
  with its questions and images, or the error) is the same with any other block that is
  no tag in its place, and the step of the loop on it leaves the state as it is, with no
  error, while no question is open.
\<close>

theorem before_first_question_discarded:
  assumes "scanHeader body 0 = Inr (Some (ty, b))"
    and "b < i" and "i < length body"
    and "\<forall>j < i. \<not> startsWith (blockText (body ! j)) ''[QUESTION''"
    and "nonTag (body ! i)" and "nonTag x"
  shows "parse (body[i := x]) = parse body
     \<and> (currentQuestion ps = None \<longrightarrow> step ty (b + 1) i (body ! i) ps = Inr ps)"
proof -
  let ?pre = "take i body" and ?post = "drop (Suc i) body"
  have b1: "body = ?pre @ body ! i # ?post"
    using assms(3) by (simp add: id_take_nth_drop)
  have b2: "body[i := x] = ?pre @ x # ?post"
    using assms(3) by (simp add: upd_conv_take_nth_drop)
  have noq: "\<forall>j < length ?pre. \<not> startsWith (blockText (?pre ! j)) ''[QUESTION''"
    using assms(4) by simp
  have pre: "mainLoop ty b 0 ?pre initial = Inr ps' \<Longrightarrow> ps' = initial" for ps'
    using mainLoop_no_question [OF _ noq] by (simp add: initial_def)
  have len: "length ?pre = i"
    using assms(3) by simp
  have cur: "currentQuestion initial = None"
    by (simp add: initial_def)
  have "mainLoop ty b 0 (?pre @ x # ?post) initial = mainLoop ty b 0 (?pre @ body ! i # ?post) initial"
  proof (cases "mainLoop ty b 0 ?pre initial")
    case (Inl e)
    then show ?thesis by (simp add: mainLoop_append)
  next
    case (Inr ps')
    with pre have "mainLoop ty b 0 ?pre initial = Inr initial" by simp
    with assms(2) show ?thesis
      by (simp add: mainLoop_append len step_nonTag [OF assms(5) cur] step_nonTag [OF assms(6) cur])
  qed
  with b1 b2 have "mainLoop ty b 0 (body[i := x]) initial = mainLoop ty b 0 body initial"
    by simp
  moreover have "scanHeader (body[i := x]) 0 = Inr (Some (ty, b))"
    using scanHeader_update [OF assms(1), of i x] assms(2) by simp
  ultimately have "parse (body[i := x]) = parse body"
    using assms(1) by (simp add: parse_def)
  with step_nonTag [OF assms(5)] show ?thesis by simp
qed

text \<open>
  A paragraph with text and an image before the first question: the model has no image
  and its question has the content of the question only, as with a table in its place.
\<close>

theorem before_first_question_discarded_witness:
  "scanHeader introDoc 0 = Inr (Some (MCQ, 0)) \<and> 0 < (1::nat) \<and> 1 < length introDoc
   \<and> \<not> startsWith (blockText (introDoc ! 0)) ''[QUESTION''
   \<and> nonTag (introDoc ! 1) \<and> nonTag introTable
   \<and> parse (introDoc[1 := introTable]) = parse introDoc
   \<and> step MCQ 1 1 (introDoc ! 1) initial = Inr initial
   \<and> (case parse introDoc of
        Inl e \<Rightarrow> False
      | Inr (r, h) \<Rightarrow> images r = [] \<and> h = [] \<and> map q_content (questions r) = [''<p>Q</p>''])"
proof -
  have a: "scanHeader introDoc 0 = Inr (Some (MCQ, 0))"
    by code_simp
  have b: "1 < length introDoc"
    by code_simp
  have c: "\<not> startsWith (blockText (introDoc ! 0)) ''[QUESTION''"
    by code_simp
  then have c': "\<forall>j < 1. \<not> startsWith (blockText (introDoc ! j)) ''[QUESTION''"
    by simp
  have d: "nonTag (introDoc ! 1)"
    by code_simp
  have e: "nonTag introTable"
    by code_simp
  have f: "currentQuestion initial = None"
    by (simp add: initial_def)
  have g: "case parse introDoc of
        Inl e \<Rightarrow> False
      | Inr (r, h) \<Rightarrow> images r = [] \<and> h = [] \<and> map q_content (questions r) = [''<p>Q</p>'']"
    by code_simp
  from before_first_question_discarded [OF a _ b c' d e, of initial] a b c d e f g
  show ?thesis by simp
qed

text \<open>
  C1, as claimed: parse and then validate, on an ESSAY document with an \<^verbatim>\<open>[OPTIONS]\<close> tag
  in its question, reaches the validator and gives one validation error. The parser
  raises its own error at the tag, in line 3, and the validator is not called.
\<close>

theorem essay_options_counterexample:
  "parseThenValidate essayDoc = Inl (InvalidOptionsForEssay 3)"
  by code_simp

text \<open>
  C1, amended. In a document with the header \<^verbatim>\<open>[BEGIN#ESSAY]\<close>, a block other than the
  header whose text begins with \<^verbatim>\<open>[OPTIONS]\<close> makes \<open>parse\<close> raise an error, so that the
  validator is not reached; when the blocks before it parse and leave a question open,
  the error is \<^verbatim>\<open>Invalid [OPTIONS] for ESSAY\<close> at the line of that block. The validator
  itself, on an ESSAY model with at least one question, reports one error \<^verbatim>\<open>[OPTIONS] is
  not allowed for ESSAY\<close> for each question that has the OPTIONS tag or an option, and no
  other error of this kind.
\<close>

theorem essay_options:
  "(scanHeader body 0 = Inr (Some (ESSAY, b)) \<and> j < length body \<and> j \<noteq> b
      \<and> startsWith (blockText (body ! j)) ''[OPTIONS]''
    \<longrightarrow> (\<exists>e. parseThenValidate body = Inl e)
        \<and> (mainLoop ESSAY b 0 (take j body) initial = Inr ps \<and> currentQuestion ps \<noteq> None
           \<longrightarrow> parseThenValidate body = Inl (InvalidOptionsForEssay (j + 1))))
   \<and> (quizType pr = Some ESSAY \<and> questions pr \<noteq> []
    \<longrightarrow> filter isEssayOptionsError (errors (validate pr))
          = concat (map (\<lambda>q. if hasOptionsTag q \<or> q_options q \<noteq> []
                               then [\<lparr>msg = OptionsNotAllowedForEssay (q_num q), line = essayLine q\<rparr>]
                               else []) (questions pr)))
   \<and> includes_str (message (OptionsNotAllowedForEssay n)) ''[OPTIONS] is not allowed for ESSAY''"
proof -
  have 1: "\<exists>e. parseThenValidate body = Inl e"
    if "scanHeader body 0 = Inr (Some (ESSAY, b))" "j < length body" "j \<noteq> b"
      "startsWith (blockText (body ! j)) ''[OPTIONS]''"
    using parse_rejects_options_under_essay [OF that] by (auto simp: parseThenValidate_def)
  have 2: "parseThenValidate body = Inl (InvalidOptionsForEssay (j + 1))"
    if "scanHeader body 0 = Inr (Some (ESSAY, b))" "j < length body" "j \<noteq> b"
      "startsWith (blockText (body ! j)) ''[OPTIONS]''"
      "mainLoop ESSAY b 0 (take j body) initial = Inr ps" "currentQuestion ps \<noteq> None"
    using parse_rejects_options_in_open_question [OF that] by (simp add: parseThenValidate_def)
  have 3: "filter isEssayOptionsError (errors (validate pr))
          = concat (map (\<lambda>q. if hasOptionsTag q \<or> q_options q \<noteq> []
                               then [\<lparr>msg = OptionsNotAllowedForEssay (q_num q), line = essayLine q\<rparr>]
                               else []) (questions pr))"
    if "quizType pr = Some ESSAY" "questions pr \<noteq> []"
    by (simp add: validate_errors [OF that] filter_concat comp_def filter_essay_question
        essayErrors_def)
  have "message (OptionsNotAllowedForEssay n) = (''Question '' @ show_nat n @ '': '')
     @ ''[OPTIONS] is not allowed for ESSAY'' @ ''. Remove [OPTIONS] and the option list.''"
    by simp
  then have 4: "includes_str (message (OptionsNotAllowedForEssay n)) ''[OPTIONS] is not allowed for ESSAY''"
    by (simp only: includes_str_mid)
  from 1 2 3 4 show ?thesis by blast
qed

text \<open>
  The document of the counterexample, and the ESSAY model of Tests.js, which no document
  parses to: the validator gives it exactly one error.
\<close>

theorem essay_options_witness:
  "scanHeader essayDoc 0 = Inr (Some (ESSAY, 0)) \<and> 2 < length essayDoc \<and> (2::nat) \<noteq> 0
   \<and> startsWith (blockText (essayDoc ! 2)) ''[OPTIONS]''
   \<and> mainLoop ESSAY 0 0 (take 2 essayDoc) initial = Inr essayOpenState
   \<and> currentQuestion essayOpenState \<noteq> None
   \<and> parseThenValidate essayDoc = Inl (InvalidOptionsForEssay 3)
   \<and> quizType essayTestModel = Some ESSAY \<and> questions essayTestModel \<noteq> []
   \<and> filter isEssayOptionsError (errors (validate essayTestModel))
       = [\<lparr>msg = OptionsNotAllowedForEssay 1, line = 12\<rparr>]
   \<and> errors (validate essayTestModel) = [\<lparr>msg = OptionsNotAllowedForEssay 1, line = 12\<rparr>]
   \<and> includes_str (message (OptionsNotAllowedForEssay 1)) ''[OPTIONS] is not allowed for ESSAY''"
proof -
  have a: "scanHeader essayDoc 0 = Inr (Some (ESSAY, 0))"
    by code_simp
  have b: "2 < length essayDoc"
    by code_simp
  have c: "startsWith (blockText (essayDoc ! 2)) ''[OPTIONS]''"
    by code_simp
  have d: "mainLoop ESSAY 0 0 (take 2 essayDoc) initial = Inr essayOpenState"
    by code_simp
  have e: "currentQuestion essayOpenState \<noteq> None"
    by (simp add: essayOpenState_def)
  have f: "quizType essayTestModel = Some ESSAY" "questions essayTestModel \<noteq> []"
    by (simp_all add: essayTestModel_def)
  have g: "concat (map (\<lambda>q. if hasOptionsTag q \<or> q_options q \<noteq> []
                               then [\<lparr>msg = OptionsNotAllowedForEssay (q_num q), line = essayLine q\<rparr>]
                               else []) (questions essayTestModel))
           = [\<lparr>msg = OptionsNotAllowedForEssay 1, line = 12\<rparr>]"
    by code_simp
  have h: "errors (validate essayTestModel) = [\<lparr>msg = OptionsNotAllowedForEssay 1, line = 12\<rparr>]"
    by code_simp
  from essay_options [of essayDoc 0 2 essayOpenState essayTestModel 1] a b c d e f g h
  show ?thesis by simp
qed

section \<open>Properties of the validator\<close>

text \<open>
  C6. For an MCQ model with at least one question, the entries of \<open>errors\<close> about the
  number of correct answers are, question by question, decided by the number \<open>k\<close> of the
  question's options whose \<^verbatim>\<open>isCorrect\<close> is true: none when \<open>k = 1\<close>, the entry
  \<^verbatim>\<open>No correct answer marked\<close> when \<open>k = 0\<close>, and the entry
  \<^verbatim>\<open>Multiple correct answers found (k)\<close> when \<open>k > 1\<close>. The messages of these entries
  contain the words \<^verbatim>\<open>No correct answer\<close> and \<^verbatim>\<open>Multiple correct answers found (k)\<close>.
\<close>

theorem correct_count_errors:
  assumes "quizType pr = Some MCQ" and "questions pr \<noteq> []"
  shows "filter isCorrectCountError (errors (validate pr)) =
           concat (map (\<lambda>q. expectedCorrectErrors q (length (filter o_isCorrect (q_options q))))
             (questions pr))
    \<and> includes_str (message (NoCorrectAnswer n)) ''No correct answer''
    \<and> includes_str (message (MultipleCorrectAnswers n k))
           (''Multiple correct answers found ('' @ show_nat k @ '')'')"
proof -
  have 1: "filter isCorrectCountError (errors (validate pr)) =
           concat (map (\<lambda>q. expectedCorrectErrors q (length (filter o_isCorrect (q_options q))))
             (questions pr))"
    by (simp add: validate_errors [OF assms] filter_concat comp_def filter_correct_question)
  have "message (NoCorrectAnswer n) = (''Question '' @ show_nat n @ '': '') @ ''No correct answer''
     @ ('' marked. Add '' @ [CHR 0x27] @ ''<>'' @ [CHR 0x27] @ '' to one option.'')"
    by simp
  then have 2: "includes_str (message (NoCorrectAnswer n)) ''No correct answer''"
    by (simp only: includes_str_mid)
  have "message (MultipleCorrectAnswers n k) = (''Question '' @ show_nat n @ '': '')
     @ (''Multiple correct answers found ('' @ show_nat k @ '')'') @ ''. Only one allowed.''"
    by simp
  then have 3: "includes_str (message (MultipleCorrectAnswers n k))
           (''Multiple correct answers found ('' @ show_nat k @ '')'')"
    by (simp only: includes_str_mid)
  from 1 2 3 show ?thesis by blast
qed

text \<open>
  The example of the specification and of Tests.js: a question with two options, both
  marked correct, gives exactly one error, \<^verbatim>\<open>Multiple correct answers found (2)\<close>. And three
  questions whose options are marked (no, yes, yes), (no, yes, no) and (no, no) give the
  error for two correct answers at the first, nothing at the second and the error for no
  correct answer at the third.
\<close>

theorem correct_count_errors_witness:
  "quizType multiCorrectModel = Some MCQ \<and> questions multiCorrectModel \<noteq> []
   \<and> filter isCorrectCountError (errors (validate multiCorrectModel))
       = [\<lparr>msg = MultipleCorrectAnswers 3 2, line = 30\<rparr>]
   \<and> errors (validate multiCorrectModel) = [\<lparr>msg = MultipleCorrectAnswers 3 2, line = 30\<rparr>]
   \<and> includes_str (message (MultipleCorrectAnswers 3 2)) ''Multiple correct answers found (2)''
   \<and> map (\<lambda>q. map o_isCorrect (q_options q)) (questions multiCorrectModel) = [[True, True]]
   \<and> quizType mixedCorrectModel = Some MCQ \<and> questions mixedCorrectModel \<noteq> []
   \<and> map (\<lambda>q. map o_isCorrect (q_options q)) (questions mixedCorrectModel)
       = [[False, True, True], [False, True, False], [False, False]]
   \<and> filter isCorrectCountError (errors (validate mixedCorrectModel))
       = [\<lparr>msg = MultipleCorrectAnswers 1 2, line = 2\<rparr>, \<lparr>msg = NoCorrectAnswer 3, line = 12\<rparr>]
   \<and> errors (validate mixedCorrectModel)
       = [\<lparr>msg = MultipleCorrectAnswers 1 2, line = 2\<rparr>, \<lparr>msg = NoCorrectAnswer 3, line = 12\<rparr>]
   \<and> includes_str (message (NoCorrectAnswer 3)) ''No correct answer''"
proof -
  have a: "quizType multiCorrectModel = Some MCQ"
    by (simp add: multiCorrectModel_def)
  have b: "questions multiCorrectModel \<noteq> []"
    by (simp add: multiCorrectModel_def)
  have c: "concat (map (\<lambda>q. expectedCorrectErrors q (length (filter o_isCorrect (q_options q))))
               (questions multiCorrectModel))
             = [\<lparr>msg = MultipleCorrectAnswers 3 2, line = 30\<rparr>]"
    by code_simp
  have d: "errors (validate multiCorrectModel) = [\<lparr>msg = MultipleCorrectAnswers 3 2, line = 30\<rparr>]"
    by code_simp
  have e: "show_nat 2 = ''2''"
    by code_simp
  have f: "map (\<lambda>q. map o_isCorrect (q_options q)) (questions multiCorrectModel) = [[True, True]]"
    by code_simp
  have a': "quizType mixedCorrectModel = Some MCQ"
    by (simp add: mixedCorrectModel_def)
  have b': "questions mixedCorrectModel \<noteq> []"
    by (simp add: mixedCorrectModel_def)
  have c': "concat (map (\<lambda>q. expectedCorrectErrors q (length (filter o_isCorrect (q_options q))))
               (questions mixedCorrectModel))
             = [\<lparr>msg = MultipleCorrectAnswers 1 2, line = 2\<rparr>, \<lparr>msg = NoCorrectAnswer 3, line = 12\<rparr>]"
    by code_simp
  have d': "errors (validate mixedCorrectModel)
             = [\<lparr>msg = MultipleCorrectAnswers 1 2, line = 2\<rparr>, \<lparr>msg = NoCorrectAnswer 3, line = 12\<rparr>]"
    by code_simp
  have f': "map (\<lambda>q. map o_isCorrect (q_options q)) (questions mixedCorrectModel)
       = [[False, True, True], [False, True, False], [False, False]]"
    by code_simp
  from correct_count_errors [OF a b, of 3 2] correct_count_errors [OF a' b', of 3 2]
    a b c d e f a' b' c' d' f'
  show ?thesis
    by simp
qed

text \<open>
  C5, as claimed: every later option with the value of an earlier one gives a duplicate
  error. The marker alone and a space alone are two options of the same value, the empty
  string; the claim asks for a duplicate error at the second, and the validator finds
  the question valid, with the two warnings for empty text.
\<close>

theorem duplicate_options_counterexample:
  "parse blankOptionsDoc = Inr (blankOptionsModel, [])
   \<and> map normalizeOptionLine (q_options blankOptionsQuestion) = [[], []]
   \<and> duplicatesAsClaimed blankOptionsQuestion [] (q_options blankOptionsQuestion)
       = [\<lparr>msg = DuplicateOptions 1 [], line = 5\<rparr>]
   \<and> validate blankOptionsModel
       = \<lparr>isValid = True, errors = [],
          warnings = [\<lparr>msg = OptionTextEmpty 1 1, line = 4\<rparr>,
                      \<lparr>msg = OptionTextEmpty 1 2, line = 5\<rparr>]\<rparr>"
  by code_simp

text \<open>
  C5, amended. For an MCQ model with at least one question and no option whose value is
  \<^verbatim>\<open>__proto__\<close>, the duplicate errors are, question by question, those of the claim among
  the options whose value is not empty: the first option with a value is kept, and every
  later option with the same non-empty value gives an error that names the value. The
  value of an option that has a \<^verbatim>\<open>choiceText\<close> is that text, trimmed, with each run of
  white space made one space; the HTML of the option has no part in it. The parser gives
  an option the \<^verbatim>\<open>choiceText\<close> of its list item's text alone: marker stripped, trimmed,
  white space collapsed, whatever the children and their formatting are.
\<close>

theorem duplicate_options:
  assumes "quizType pr = Some MCQ" and "questions pr \<noteq> []"
    and "\<forall>q \<in> set (questions pr). \<forall>opt \<in> set (q_options q). normalizeOptionLine opt \<noteq> ''__proto__''"
  shows "filter isDuplicateError (errors (validate pr))
           = concat (map (\<lambda>q. duplicatesAsClaimed q [] (filter hasKey (q_options q))) (questions pr))
     \<and> (o_choiceText opt = Some c \<longrightarrow> normalizeOptionLine opt = replaceAll ws_run '' '' (trim c))
     \<and> map o_choiceText (q_options (fst (readOptions ln (LIST_ITEM t g kids) q' st)))
         = map o_choiceText (q_options q') @ [Some (choiceTextOf (trim t))]"
proof -
  have "duplicateErrors q Map.empty 0 (q_options q)
          = duplicatesAsClaimed q [] (filter hasKey (q_options q))"
    if "q \<in> set (questions pr)" for q
    using that assms(3) by (intro duplicateErrors_claimed) auto
  then have "filter isDuplicateError (errors (validate pr))
           = concat (map (\<lambda>q. duplicatesAsClaimed q [] (filter hasKey (q_options q))) (questions pr))"
    by (simp add: validate_errors [OF assms(1,2)] filter_concat comp_def filter_duplicate_question
        cong: map_cong)
  moreover have "map o_choiceText (q_options (fst (readOptions ln (LIST_ITEM t g kids) q' st)))
         = map o_choiceText (q_options q') @ [Some (choiceTextOf (trim t))]"
    by (simp add: readOptions_def Let_def split: prod.splits)
  ultimately show ?thesis
    by (simp add: normalizeOptionLine_def)
qed

text \<open>
  The example of the specification: the options \<^verbatim>\<open><> blue\<close>, in bold, and \<^verbatim>\<open>blue\<close> have
  the HTML \<^verbatim>\<open><b>blue</b>\<close> and \<^verbatim>\<open>blue\<close> and the same value, and the second is a duplicate.
\<close>

theorem duplicate_options_witness:
  "parse blueDoc = Inr (blueModel, [])
   \<and> quizType blueModel = Some MCQ \<and> questions blueModel \<noteq> []
   \<and> map (\<lambda>q. map normalizeOptionLine (q_options q)) (questions blueModel) = [[''blue'', ''blue'']]
   \<and> map (\<lambda>q. map o_text (q_options q)) (questions blueModel) = [[''<b>blue</b>'', ''blue'']]
   \<and> filter isDuplicateError (errors (validate blueModel))
       = [\<lparr>msg = DuplicateOptions 1 ''blue'', line = 5\<rparr>]
   \<and> o_choiceText boldBlueOption = Some ''blue''
   \<and> normalizeOptionLine boldBlueOption = ''blue''
   \<and> map o_choiceText (q_options (fst (readOptions 4
         (LIST_ITEM ''<> blue'' LATIN_UPPER [boldText ''<> blue'']) (createQuestionObj 1 2) emptyStore)))
       = [Some ''blue'']"
proof -
  have p: "parse blueDoc = Inr (blueModel, [])"
    by code_simp
  have a: "quizType blueModel = Some MCQ" "questions blueModel \<noteq> []"
    by (simp_all add: blueModel_def)
  have k: "map (\<lambda>q. map normalizeOptionLine (q_options q)) (questions blueModel) = [[''blue'', ''blue'']]"
    by code_simp
  have t: "map (\<lambda>q. map o_text (q_options q)) (questions blueModel) = [[''<b>blue</b>'', ''blue'']]"
    by code_simp
  from k have n: "\<forall>q \<in> set (questions blueModel). \<forall>opt \<in> set (q_options q).
      normalizeOptionLine opt \<noteq> ''__proto__''"
    by (auto simp: blueModel_def)
  have d: "concat (map (\<lambda>q. duplicatesAsClaimed q [] (filter hasKey (q_options q))) (questions blueModel))
             = [\<lparr>msg = DuplicateOptions 1 ''blue'', line = 5\<rparr>]"
    by code_simp
  have c: "o_choiceText boldBlueOption = Some ''blue''"
    by (simp add: boldBlueOption_def)
  have w: "replaceAll ws_run '' '' (trim ''blue'') = ''blue''"
    by code_simp
  have v: "choiceTextOf (trim ''<> blue'') = ''blue''"
    by code_simp
  have e: "q_options (createQuestionObj 1 2) = []"
    by (simp add: createQuestionObj_def)
  from duplicate_options [OF a n, of boldBlueOption "''blue''" 4 "''<> blue''" LATIN_UPPER
      "[boldText ''<> blue'']" "createQuestionObj 1 2" emptyStore] p a k t d c w v e
  show ?thesis
    by simp
qed

text \<open>
  C9, as claimed: each option whose value is empty gives the warning for empty option
  text. Two options that are an image each have an empty value and an HTML text that is
  not empty: the validator gives no duplicate error and no warning for them.
\<close>

theorem empty_options_counterexample:
  "parse imageOnlyDoc = Inr (imageOnlyModel, [photoBlob, photoBlob])
   \<and> map normalizeOptionLine (q_options imageOnlyQuestion) = [[], []]
   \<and> validate imageOnlyModel
       = \<lparr>isValid = False, errors = [\<lparr>msg = NoCorrectAnswer 1, line = 2\<rparr>], warnings = []\<rparr>"
  by code_simp

text \<open>
  C9, amended. For an MCQ model with at least one question, no error is a duplicate
  error for the empty value: options whose value is empty are exempt from the duplicate
  check. The warnings are, question by question and option by option, one warning for
  empty option text for each option whose HTML text is empty after trimming, whatever
  its value.
\<close>

theorem empty_options:
  assumes "quizType pr = Some MCQ" and "questions pr \<noteq> []"
  shows "\<lparr>msg = DuplicateOptions n [], line = l\<rparr> \<notin> set (errors (validate pr))
     \<and> warnings (validate pr) = concat (map emptyTextWarnings (questions pr))"
proof -
  have "\<lparr>msg = DuplicateOptions n [], line = l\<rparr> \<notin> set (fst (validateQuestion MCQ q))" for q
    by (auto simp: validateQuestion_def contentErrors_def missingOptionsErrors_def
        optionCountErrors_def correctAnswerErrors_def dest!: duplicateErrors_kind)
  then have "\<lparr>msg = DuplicateOptions n [], line = l\<rparr> \<notin> set (errors (validate pr))"
    by (simp add: validate_errors [OF assms])
  moreover have "snd (validateQuestion MCQ q) = emptyTextWarnings q" for q
    by (simp add: validateQuestion_def emptyTextWarnings_def emptyOptionWarnings_index
        cong: if_cong)
  then have "warnings (validate pr) = concat (map emptyTextWarnings (questions pr))"
    by (simp add: validate_warnings [OF assms])
  ultimately show ?thesis by simp
qed

text \<open>
  The marker alone and a space alone: two options of empty value and empty text, with no
  duplicate error and one warning each.
\<close>

theorem empty_options_witness:
  "quizType blankOptionsModel = Some MCQ \<and> questions blankOptionsModel \<noteq> []
   \<and> \<lparr>msg = DuplicateOptions 1 [], line = 5\<rparr> \<notin> set (errors (validate blankOptionsModel))
   \<and> warnings (validate blankOptionsModel)
       = [\<lparr>msg = OptionTextEmpty 1 1, line = 4\<rparr>, \<lparr>msg = OptionTextEmpty 1 2, line = 5\<rparr>]"
proof -
  have a: "quizType blankOptionsModel = Some MCQ" "questions blankOptionsModel \<noteq> []"
    by (simp_all add: blankOptionsModel_def)
  have w: "concat (map emptyTextWarnings (questions blankOptionsModel))
             = [\<lparr>msg = OptionTextEmpty 1 1, line = 4\<rparr>, \<lparr>msg = OptionTextEmpty 1 2, line = 5\<rparr>]"
    by code_simp
  from empty_options [OF a, of 1 5] a w show ?thesis
    by simp
qed

section \<open>Properties of the exporter\<close>

text \<open>
  C2, as claimed: after \<^verbatim>\<open>generateZip\<close> each stored image blob is as before the call. The
  quiz with one image is valid; its blob has the name \<^verbatim>\<open>photo.png\<close> before the export
  and the name \<^verbatim>\<open>images/q1_img_001.png\<close> after it.
\<close>

theorem generateZip_renames_counterexample:
  "parse pictureDoc = Inr (pictureModel, [photoBlob])
   \<and> isValid (validate pictureModel)
   \<and> map getName [photoBlob] = [''photo.png'']
   \<and> map getName (snd (generateZip exportTime pictureModel [photoBlob])) = [''images/q1_img_001.png'']"
  by code_simp

text \<open>
  C2, amended. \<^verbatim>\<open>generateZip\<close> assigns to no field of the model: the quiz type, the
  questions and the mapping of file names to blobs stay as they are. In the heap it
  leaves the bytes and the content type of every blob as they are, and every blob that
  the mapping does not address wholly as it is; it sets the name of each blob of the
  mapping to \<^verbatim>\<open>images/\<close> and its file name (when no two file names share a blob).
\<close>

theorem generateZip_frame:
  assumes "generateZip now parseResult h = (z, h')"
  shows "length h' = length h
     \<and> map getBytes h' = map getBytes h
     \<and> map getContentType h' = map getContentType h
     \<and> (a \<notin> snd ` set (images parseResult) \<longrightarrow> h' ! a = h ! a)
     \<and> (distinct (map snd (images parseResult)) \<and> (filename, a) \<in> set (images parseResult)
          \<and> a < length h \<longrightarrow> getName (h' ! a) = ''images/'' @ filename)"
proof -
  from assms have h': "h' = renameBlobs (images parseResult) h"
    by (auto simp: generateZip_def Let_def)
  show ?thesis
    unfolding h'
    using renameBlobs_name [of "images parseResult" filename a h]
    by (simp add: renameBlobs_bytes renameBlobs_contentType renameBlobs_other)
qed

text \<open>The quiz with one image, exported from a heap that holds a second blob.\<close>

theorem generateZip_frame_witness:
  "length (snd (generateZip exportTime pictureModel twoBlobHeap)) = length twoBlobHeap
   \<and> map getBytes (snd (generateZip exportTime pictureModel twoBlobHeap)) = map getBytes twoBlobHeap
   \<and> map getContentType (snd (generateZip exportTime pictureModel twoBlobHeap))
       = map getContentType twoBlobHeap
   \<and> 1 \<notin> snd ` set (images pictureModel)
   \<and> snd (generateZip exportTime pictureModel twoBlobHeap) ! 1 = twoBlobHeap ! 1
   \<and> distinct (map snd (images pictureModel))
   \<and> (''q1_img_001.png'', 0) \<in> set (images pictureModel) \<and> 0 < length twoBlobHeap
   \<and> getName (snd (generateZip exportTime pictureModel twoBlobHeap) ! 0) = ''images/q1_img_001.png''"
proof -
  have g: "generateZip exportTime pictureModel twoBlobHeap
             = (fst (generateZip exportTime pictureModel twoBlobHeap),
                snd (generateZip exportTime pictureModel twoBlobHeap))"
    by simp
  have i: "images pictureModel = [(''q1_img_001.png'', 0)]"
    by (simp add: pictureModel_def)
  have l: "0 < length twoBlobHeap"
    by (simp add: twoBlobHeap_def)
  from generateZip_frame [OF g, of 1 "''q1_img_001.png''"]
    generateZip_frame [OF g, of 0 "''q1_img_001.png''"] i l
  show ?thesis by simp
qed

end
